theory Spec2Isabelle
  imports Complex_Main "HOL-Library.Word" "HOL-Library.AList"
begin

section \<open>The dashboard client of AtlasInContext (frontend/static/main.js)\<close>

text \<open>
  The client fetches three JSON documents (metadata, the H3 grid, the vibe scores), which
  may be served gzip-compressed, keeps them in one global \<open>state\<close> object and renders
  statistics into DOM elements. The functions below are translated one by one from
  main.js. What the browser provides is a parameter of the model: the network
  (\<open>fetch\<close>), gzip decompression (\<open>DecompressionStream\<close>), JSON parsing
  (\<open>Response.json\<close>) and the number formatting methods. JavaScript numbers are read as
  real numbers, and number literals as the decimal fractions they are written as.
  Calls to \<open>console\<close> only print and are left out, except where reading their
  arguments can throw.
\<close>

subsection \<open>Errors, requests and responses\<close>

datatype js_error =
    Error string      \<comment> \<open>\<open>new Error(message)\<close>\<close>
  | TypeError         \<comment> \<open>property access on null or undefined, calling what is no function, a rejected fetch\<close>
  | SyntaxError       \<comment> \<open>\<open>Response.json\<close> on text that is not JSON\<close>

type_synonym chunk = "8 word list"

record options =
  cache :: "string option"

record response =
  ok :: bool
  status :: nat
  body :: "chunk list option"    \<comment> \<open>the chunks the body stream delivers; \<open>None\<close> is a null body\<close>

type_synonym request = "string \<times> options"

record env =
  fetch :: "string \<Rightarrow> options \<Rightarrow> response option"   \<comment> \<open>\<open>None\<close>: the request is rejected\<close>
  gunzip :: "8 word list \<Rightarrow> 8 word list option"       \<comment> \<open>\<open>None\<close>: the data is no gzip stream\<close>

record config =
  dataBaseUrl :: string
  useGzip :: bool

text \<open>The decimal digits of a number, as a template literal prints a status code.\<close>

fun decimal :: "nat \<Rightarrow> string" where
  "decimal n =
     (if n < 10 then [''0123456789'' ! n]
      else decimal (n div 10) @ [''0123456789'' ! (n mod 10)])"

declare decimal.simps [simp del]

subsection \<open>Reading a body stream\<close>

text \<open>
  A reader holds the chunks that have not been read yet. \<open>reader.read()\<close> returns the
  next chunk, or reports \<open>done\<close> (\<open>None\<close>) when there is none.
\<close>

type_synonym reader = "chunk list"

definition read :: "reader \<Rightarrow> chunk option \<times> reader" where
  "read r = (case r of [] \<Rightarrow> (None, []) | c # cs \<Rightarrow> (Some c, cs))"

text \<open>
  The function \<open>push\<close> inside \<open>combinedStream\<close>: it reads until the reader is done and
  enqueues every chunk read. Its value is the list of chunks enqueued before the
  controller is closed.
\<close>

function push :: "reader \<Rightarrow> chunk list" where
  "push r = (case read r of (None, r') \<Rightarrow> [] | (Some v, r') \<Rightarrow> v # push r')"
  by pat_completeness auto
termination
  by (relation "measure length") (auto simp: read_def split: list.splits)

declare push.simps [simp del]

definition combinedStream :: "chunk \<Rightarrow> reader \<Rightarrow> chunk list" where
  "combinedStream v reader = v # push reader"

text \<open>Indexing a \<open>Uint8Array\<close>: \<open>undefined\<close> (\<open>None\<close>) outside the array.\<close>

definition byte_at :: "chunk \<Rightarrow> nat \<Rightarrow> 8 word option" where
  "byte_at v i = (if i < length v then Some (v ! i) else None)"

definition isEncrypted :: "chunk \<Rightarrow> bool" where
  "isEncrypted v \<longleftrightarrow> byte_at v 0 = Some 0x1f \<and> byte_at v 1 = Some 0x8b"

text \<open>\<open>new Response(stream).json()\<close>: the text of all chunks, parsed.\<close>

definition stream_json :: "(8 word list \<Rightarrow> 'j option) \<Rightarrow> chunk list \<Rightarrow> js_error + 'j option" where
  "stream_json json chunks =
     (case json (concat chunks) of None \<Rightarrow> Inl SyntaxError | Some j \<Rightarrow> Inr (Some j))"

definition response_json :: "(8 word list \<Rightarrow> 'j option) \<Rightarrow> response \<Rightarrow> js_error + 'j option" where
  "response_json json r = stream_json json (case body r of None \<Rightarrow> [] | Some cs \<Rightarrow> cs)"

definition CORRUPTED_GZIP :: string where
  "CORRUPTED_GZIP = ''CORRUPTED_GZIP: Data header matched but decompression failed.''"

subsection \<open>fetchWithDecompress\<close>

text \<open>
  The result is the value returned (\<open>None\<close> is \<open>null\<close>) or the error thrown, together
  with the log of requests, to which every call of \<open>fetch\<close> is appended. In the gzip
  branch the \<open>try\<close> block holds both the decompression and the parsing, so a failure of
  either is replaced by the \<open>CORRUPTED_GZIP\<close> error.
\<close>

definition fetchWithDecompress ::
  "config \<Rightarrow> env \<Rightarrow> (8 word list \<Rightarrow> 'j option) \<Rightarrow> string \<Rightarrow> options \<Rightarrow> request list
     \<Rightarrow> (js_error + 'j option) \<times> request list" where
  "fetchWithDecompress cfg e json url opts reqs =
     (let fetchUrl = (if useGzip cfg then url @ ''.gz'' else url);
          reqs1 = reqs @ [(fetchUrl, opts)]
      in case fetch e fetchUrl opts of
           None \<Rightarrow> (Inl TypeError, reqs1)
         | Some response \<Rightarrow>
             if \<not> ok response then
               (if useGzip cfg then
                  (let reqs2 = reqs1 @ [(url, opts)]
                   in case fetch e url opts of
                        None \<Rightarrow> (Inl TypeError, reqs2)
                      | Some fallbackResponse \<Rightarrow>
                          if \<not> ok fallbackResponse
                          then (Inl (Error (''HTTP '' @ decimal (status fallbackResponse))), reqs2)
                          else (response_json json fallbackResponse, reqs2))
                else (Inl (Error (''HTTP '' @ decimal (status response))), reqs1))
             else
               (case body response of
                  None \<Rightarrow> (Inl TypeError, reqs1)
                | Some chunks \<Rightarrow>
                    (case read chunks of
                       (None, reader) \<Rightarrow> (Inr None, reqs1)
                     | (Some v, reader) \<Rightarrow>
                         if isEncrypted v then
                           (case gunzip e (concat (combinedStream v reader)) of
                              None \<Rightarrow> (Inl (Error CORRUPTED_GZIP), reqs1)
                            | Some bytes \<Rightarrow>
                                (case json bytes of
                                   None \<Rightarrow> (Inl (Error CORRUPTED_GZIP), reqs1)
                                 | Some j \<Rightarrow> (Inr (Some j), reqs1)))
                         else (stream_json json (combinedStream v reader), reqs1))))"

definition is_http_error :: "js_error + 'a \<Rightarrow> bool" where
  "is_http_error r = (case r of Inl (Error msg) \<Rightarrow> take 5 msg = ''HTTP '' | _ \<Rightarrow> False)"

subsection \<open>JavaScript values\<close>

text \<open>
  The metadata and the grid are handled as parsed JSON. An object is the list of its own
  properties in order; \<open>JUndefined\<close> appears once a missing property is read.
\<close>

datatype jsval =
    JUndefined
  | JNull
  | JBool bool
  | JNum real
  | JStr string
  | JArr "jsval list"
  | JObj "(string \<times> jsval) list"

fun truthy :: "jsval \<Rightarrow> bool" where
  "truthy JUndefined = False"
| "truthy JNull = False"
| "truthy (JBool b) = b"
| "truthy (JNum x) = (x \<noteq> 0)"
| "truthy (JStr s) = (s \<noteq> [])"
| "truthy (JArr xs) = True"
| "truthy (JObj ps) = True"

text \<open>The own enumerable properties of a value, which the spread \<open>{...v}\<close> copies.\<close>

fun own :: "jsval \<Rightarrow> (string \<times> jsval) list" where
  "own (JObj ps) = ps"
| "own (JArr xs) = zip (map decimal [0..<length xs]) xs"
| "own (JStr s) = zip (map decimal [0..<length s]) (map (\<lambda>c. JStr [c]) s)"
| "own v = []"

text \<open>
  Reading a property \<open>v.k\<close>: a TypeError on \<open>null\<close> and \<open>undefined\<close>, and \<open>undefined\<close> when the
  value has no such property. Built-in properties are left out: the loader reads the
  names \<open>available_files\<close>, \<open>core_grid\<close>, \<open>features\<close>, \<open>metadata\<close>, \<open>resolution\<close>,
  \<open>properties\<close> and \<open>id\<close>, none of which is built into a number, a boolean, a string
  or an array.
\<close>

fun get :: "jsval \<Rightarrow> string \<Rightarrow> js_error + jsval" where
  "get JUndefined k = Inl TypeError"
| "get JNull k = Inl TypeError"
| "get v k = Inr (case map_of (own v) k of None \<Rightarrow> JUndefined | Some x \<Rightarrow> x)"

definition nullable :: "jsval option \<Rightarrow> jsval" where
  "nullable r = (case r of None \<Rightarrow> JNull | Some v \<Rightarrow> v)"

subsection \<open>The vibe-scores document\<close>

text \<open>
  The client computes with the fields of this document, so they are typed here. A cell's
  \<open>vibe\<close> is a number; the fields the client reads with a fallback or with \<open>?.\<close> may be
  absent (\<open>None\<close> is \<open>undefined\<close>). The keys of \<open>cells\<close> are H3 cell identifiers.
\<close>

record cell =
  vibe :: real
  count :: "real option"
  noise_count :: "real option"
  progress_count :: "real option"
  p_int :: "real option"
  n_int :: "real option"

record pulse =
  progress_signal :: real
  noise_signal :: real
  humanity_ratio :: real

record vibe_scores =
  cells :: "(string \<times> cell) list option"
  data_pulse :: "pulse option"
  data_insights :: "jsval list option"
  generated_at :: "string option"

subsection \<open>The state object and the document\<close>

text \<open>
  The fields of \<open>state\<close> that the functions below read or write; \<open>map\<close>, \<open>currentPopup\<close>,
  \<open>hoverTooltip\<close> and \<open>sidePanelOpen\<close> belong to the map and the side panel. A \<open>world\<close> is
  the state together with the document and the requests sent so far.
\<close>

record state =
  coreGrid :: jsval
  vibeScores :: "vibe_scores option"
  metadata :: jsval
  pulse :: "pulse option"
  insights :: "jsval list option"
  currentViewMode :: string
  isLoading :: bool

record element =
  textContent :: string
  className :: string

type_synonym dom = "string \<Rightarrow> element option"    \<comment> \<open>\<open>document.getElementById\<close>\<close>

record world =
  app :: state
  document :: dom
  requests :: "request list"

text \<open>\<open>if (el) el.textContent = s\<close> for the element with the given id.\<close>

definition set_textContent :: "string \<Rightarrow> string \<Rightarrow> dom \<Rightarrow> dom" where
  "set_textContent i s d =
     (case d i of None \<Rightarrow> d | Some el \<Rightarrow> d(i \<mapsto> el\<lparr>textContent := s\<rparr>))"

definition set_className :: "string \<Rightarrow> string \<Rightarrow> dom \<Rightarrow> dom" where
  "set_className i s d =
     (case d i of None \<Rightarrow> d | Some el \<Rightarrow> d(i \<mapsto> el\<lparr>className := s\<rparr>))"

definition updateLoadingText :: "string \<Rightarrow> string \<Rightarrow> dom \<Rightarrow> dom" where
  "updateLoadingText text subtext d =
     set_textContent ''loadingSubtext'' subtext (set_textContent ''loadingText'' text d)"

subsection \<open>The loaders\<close>

definition loadMetadata ::
  "config \<Rightarrow> env \<Rightarrow> (8 word list \<Rightarrow> jsval option) \<Rightarrow> world \<Rightarrow> (js_error + jsval) \<times> world" where
  "loadMetadata cfg e json w =
     (case fetchWithDecompress cfg e json (dataBaseUrl cfg @ ''/metadata.json'')
             \<lparr>cache = None\<rparr> (requests w) of
        (Inr meta, reqs) \<Rightarrow> (Inr (nullable meta), w\<lparr>requests := reqs\<rparr>)
      | (Inl error, reqs) \<Rightarrow>
          (Inl (Error ''Could not load metadata file. Ensure data pipeline has run.''),
           w\<lparr>requests := reqs\<rparr>))"

text \<open>\<open>s.replace(/^p/, '')\<close> for a literal prefix \<open>p\<close>.\<close>

definition strip_prefix :: "string \<Rightarrow> string \<Rightarrow> string" where
  "strip_prefix p s = (if take (length p) s = p then drop (length p) s else s)"

text \<open>\<open>Array.prototype.map\<close> with a callback that may throw: the first error ends it.\<close>

fun try_map :: "('a \<Rightarrow> js_error + 'b) \<Rightarrow> 'a list \<Rightarrow> js_error + 'b list" where
  "try_map f [] = Inr []"
| "try_map f (x # xs) =
     (case f x of
        Inl err \<Rightarrow> Inl err
      | Inr y \<Rightarrow> (case try_map f xs of Inl err \<Rightarrow> Inl err | Inr ys \<Rightarrow> Inr (y # ys)))"

text \<open>
  The callback of \<open>grid.features.map\<close> in loadCoreGrid:
  \<open>feature => ({...feature, properties: {...feature.properties, h3_index: feature.id}})\<close>.
\<close>

definition decorate :: "jsval \<Rightarrow> js_error + jsval" where
  "decorate feature =
     (case get feature ''properties'' of
        Inl err \<Rightarrow> Inl err
      | Inr props \<Rightarrow>
          (case get feature ''id'' of
             Inl err \<Rightarrow> Inl err
           | Inr fid \<Rightarrow>
               Inr (JObj (AList.update ''properties''
                            (JObj (AList.update ''h3_index'' fid (own props)))
                            (own feature)))))"

text \<open>
  The statements of loadCoreGrid that follow the fetch: the features are replaced, and
  the log line reads \<open>grid.features.length\<close> and \<open>grid.metadata.resolution\<close>, which throws
  when the grid has no \<open>metadata\<close>.
\<close>

definition decorate_grid :: "jsval \<Rightarrow> js_error + jsval" where
  "decorate_grid grid =
     (case get grid ''features'' of
        Inl err \<Rightarrow> Inl err
      | Inr features \<Rightarrow>
          (case features of
             JArr fs \<Rightarrow>
               (case try_map decorate fs of
                  Inl err \<Rightarrow> Inl err
                | Inr fs' \<Rightarrow>
                    (let grid' = JObj (AList.update ''features'' (JArr fs') (own grid))
                     in case get grid' ''metadata'' of
                          Inl err \<Rightarrow> Inl err
                        | Inr m \<Rightarrow>
                            (case get m ''resolution'' of
                               Inl err \<Rightarrow> Inl err
                             | Inr res \<Rightarrow> Inr grid')))
           | _ \<Rightarrow> Inl TypeError))"

text \<open>The body of the \<open>try\<close> block of loadCoreGrid.\<close>

definition loadCoreGrid_try ::
  "config \<Rightarrow> env \<Rightarrow> (8 word list \<Rightarrow> jsval option) \<Rightarrow> jsval \<Rightarrow> request list
     \<Rightarrow> (js_error + jsval) \<times> request list" where
  "loadCoreGrid_try cfg e json meta reqs =
     (case get meta ''available_files'' of
        Inl err \<Rightarrow> (Inl err, reqs)
      | Inr files \<Rightarrow>
          (case get files ''core_grid'' of
             Inl err \<Rightarrow> (Inl err, reqs)
           | Inr gridFile \<Rightarrow>
               (case gridFile of
                  JStr s \<Rightarrow>
                    (let cleanPath = strip_prefix ''current/'' (strip_prefix ''core/'' s)
                     in case fetchWithDecompress cfg e json (dataBaseUrl cfg @ ''/'' @ cleanPath)
                               \<lparr>cache = Some ''force-cache''\<rparr> reqs of
                          (Inl err, reqs') \<Rightarrow> (Inl err, reqs')
                        | (Inr grid, reqs') \<Rightarrow> (decorate_grid (nullable grid), reqs'))
                | _ \<Rightarrow> (Inl TypeError, reqs))))"

definition loadCoreGrid ::
  "config \<Rightarrow> env \<Rightarrow> (8 word list \<Rightarrow> jsval option) \<Rightarrow> jsval \<Rightarrow> world \<Rightarrow> (js_error + jsval) \<times> world" where
  "loadCoreGrid cfg e json meta w =
     (let w1 = w\<lparr>document := updateLoadingText ''Loading grid geometry...'' '''' (document w)\<rparr>
      in case loadCoreGrid_try cfg e json meta (requests w1) of
           (Inr grid, reqs) \<Rightarrow> (Inr grid, w1\<lparr>requests := reqs\<rparr>)
         | (Inl error, reqs) \<Rightarrow>
             (Inl (Error ''Could not load grid geometry. Check data files.''),
              w1\<lparr>requests := reqs\<rparr>))"

text \<open>
  loadVibeScores stores the pulse and the insights in the state before it reads
  \<open>Object.keys(data.cells)\<close>, which throws when the document has no \<open>cells\<close>.
\<close>

definition loadVibeScores ::
  "config \<Rightarrow> env \<Rightarrow> (8 word list \<Rightarrow> vibe_scores option) \<Rightarrow> world
     \<Rightarrow> (js_error + vibe_scores) \<times> world" where
  "loadVibeScores cfg e json w =
     (let w1 = w\<lparr>document := updateLoadingText ''Loading vibe scores...'' '''' (document w)\<rparr>;
          failed = Inl (Error ''Could not load vibe scores. Data may be processing.'')
      in case fetchWithDecompress cfg e json (dataBaseUrl cfg @ ''/vibe_scores.json'')
                \<lparr>cache = Some ''no-cache''\<rparr> (requests w1) of
           (Inl error, reqs) \<Rightarrow> (failed, w1\<lparr>requests := reqs\<rparr>)
         | (Inr None, reqs) \<Rightarrow> (failed, w1\<lparr>requests := reqs\<rparr>)
         | (Inr (Some data), reqs) \<Rightarrow>
             (let w2 = w1\<lparr>requests := reqs,
                         app := (app w1)\<lparr>pulse := data_pulse data,
                                          insights := Some (case data_insights data of
                                                              None \<Rightarrow> [] | Some xs \<Rightarrow> xs)\<rparr>\<rparr>
              in case cells data of
                   None \<Rightarrow> (failed, w2)
                 | Some cs \<Rightarrow> (Inr data, w2)))"

definition loadAllData ::
  "config \<Rightarrow> env \<Rightarrow> (8 word list \<Rightarrow> jsval option) \<Rightarrow> (8 word list \<Rightarrow> vibe_scores option)
     \<Rightarrow> world \<Rightarrow> (js_error + bool) \<times> world" where
  "loadAllData cfg e json json_vibe w =
     (let w0 = w\<lparr>app := (app w)\<lparr>isLoading := True\<rparr>\<rparr>
      in case loadMetadata cfg e json w0 of
           (Inl error, w1) \<Rightarrow> (Inl error, w1\<lparr>app := (app w1)\<lparr>isLoading := False\<rparr>\<rparr>)
         | (Inr m, w1) \<Rightarrow>
             (let w1' = w1\<lparr>app := (app w1)\<lparr>metadata := m\<rparr>\<rparr>
              in case loadCoreGrid cfg e json (metadata (app w1')) w1' of
                   (Inl error, w2) \<Rightarrow> (Inl error, w2\<lparr>app := (app w2)\<lparr>isLoading := False\<rparr>\<rparr>)
                 | (Inr g, w2) \<Rightarrow>
                     (let w2' = w2\<lparr>app := (app w2)\<lparr>coreGrid := g\<rparr>\<rparr>
                      in case loadVibeScores cfg e json_vibe w2' of
                           (Inl error, w3) \<Rightarrow>
                             (Inl error, w3\<lparr>app := (app w3)\<lparr>isLoading := False\<rparr>\<rparr>)
                         | (Inr v, w3) \<Rightarrow>
                             (Inr True,
                              w3\<lparr>app := (app w3)\<lparr>vibeScores := Some v,
                                                 isLoading := False\<rparr>\<rparr>))))"

subsection \<open>Numbers that may be NaN\<close>

datatype jsnum = NaN | Num real

text \<open>A field that may be absent, read as a number: \<open>undefined\<close> becomes NaN in arithmetic.\<close>

definition to_num :: "real option \<Rightarrow> jsnum" where
  "to_num x = (case x of None \<Rightarrow> NaN | Some v \<Rightarrow> Num v)"

text \<open>Division by a non-zero number literal, and \<open>Math.min\<close> with a number first.\<close>

fun div_by :: "jsnum \<Rightarrow> real \<Rightarrow> jsnum" where
  "div_by NaN d = NaN"
| "div_by (Num x) d = Num (x / d)"

fun math_min :: "real \<Rightarrow> jsnum \<Rightarrow> jsnum" where
  "math_min a NaN = NaN"
| "math_min a (Num x) = Num (min a x)"

text \<open>\<open>x || 0\<close> for a field that may be absent: absent and zero are falsy.\<close>

definition or0 :: "real option \<Rightarrow> real" where
  "or0 x = (case x of None \<Rightarrow> 0 | Some v \<Rightarrow> if v = 0 then 0 else v)"

subsection \<open>Visualization value\<close>

text \<open>
  \<open>state.vibeScores.cells[h3Index]\<close> reads an own property of the cells object or, when
  there is none, follows the prototype chain. The cells object comes from \<open>JSON.parse\<close>, so
  it inherits the members of \<open>Object.prototype\<close>: functions and, for \<open>__proto__\<close>, the
  prototype object itself. Such a value is truthy and has none of the fields of a cell.
\<close>

definition object_prototype_names :: "string list" where
  "object_prototype_names =
     [''constructor'', ''hasOwnProperty'', ''isPrototypeOf'', ''propertyIsEnumerable'',
      ''toLocaleString'', ''toString'', ''valueOf'', ''__proto__'',
      ''__defineGetter__'', ''__defineSetter__'', ''__lookupGetter__'', ''__lookupSetter__'']"

text \<open>
  For an inherited member \<open>cellData.p_int\<close>, \<open>cellData.n_int\<close> and \<open>cellData.vibe\<close> are
  \<open>undefined\<close>, and \<open>(undefined + 1) / 2\<close> is NaN.
\<close>

definition getVisualizationValue :: "state \<Rightarrow> string \<Rightarrow> js_error + jsnum" where
  "getVisualizationValue st h3Index =
     (case vibeScores st of
        None \<Rightarrow> Inl TypeError
      | Some vs \<Rightarrow>
          (case cells vs of
             None \<Rightarrow> Inl TypeError
           | Some cs \<Rightarrow>
               (case map_of cs h3Index of
                  None \<Rightarrow>
                    if h3Index \<in> set object_prototype_names
                    then (if currentViewMode st = ''progress''
                          then Inr (math_min 1 (div_by (to_num None) 10))
                          else if currentViewMode st = ''noise''
                          then Inr (math_min 1 (div_by (to_num None) 10))
                          else Inr NaN)
                    else Inr (Num 0)
                | Some cellData \<Rightarrow>
                    if currentViewMode st = ''progress''
                    then Inr (math_min 1 (div_by (to_num (p_int cellData)) 10))
                    else if currentViewMode st = ''noise''
                    then Inr (math_min 1 (div_by (to_num (n_int cellData)) 10))
                    else Inr (Num ((vibe cellData + 1) / 2)))))"

text \<open>An H3 cell identifier as the grid and the vibe scores write it: hexadecimal digits.\<close>

definition is_h3_index :: "string \<Rightarrow> bool" where
  "is_h3_index s \<longleftrightarrow> s \<noteq> [] \<and> set s \<subseteq> set ''0123456789abcdefABCDEF''"

subsection \<open>Vibe buckets\<close>

definition getVibeColor :: "real \<Rightarrow> string" where
  "getVibeColor v =
     (if v < - 0.5 then ''#ef4444''
      else if v < 0.0 then ''#f97316''
      else if v < 0.3 then ''#eab308''
      else if v < 0.6 then ''#84cc16''
      else ''#22c55e'')"

definition getVibeLabel :: "real \<Rightarrow> string" where
  "getVibeLabel v =
     (if v < - 0.5 then ''Crisis''
      else if v < 0.0 then ''Tense''
      else if v < 0.3 then ''Neutral''
      else if v < 0.6 then ''Stable''
      else ''Thriving'')"

subsection \<open>The panels\<close>

text \<open>The formatting methods of the browser, which depend on its locale.\<close>

record formats =
  toLocaleString :: "real \<Rightarrow> string"
  toFixed :: "real \<Rightarrow> nat \<Rightarrow> string"
  toLocaleTimeString :: "string \<Rightarrow> string"    \<comment> \<open>\<open>new Date(s).toLocaleTimeString()\<close>\<close>

definition num_toFixed :: "formats \<Rightarrow> jsnum \<Rightarrow> nat \<Rightarrow> string" where
  "num_toFixed fmt x n = (case x of NaN \<Rightarrow> ''NaN'' | Num r \<Rightarrow> toFixed fmt r n)"

definition updateGlobalPulse :: "formats \<Rightarrow> state \<Rightarrow> dom \<Rightarrow> dom" where
  "updateGlobalPulse fmt st d =
     (case pulse st of
        None \<Rightarrow> d
      | Some p \<Rightarrow>
          (let progressVal = toLocaleString fmt (progress_signal p);
               noiseVal = toLocaleString fmt (noise_signal p);
               ratioVal = toFixed fmt (humanity_ratio p) 2;
               d1 = set_textContent ''pulseProgress'' progressVal d;
               d2 = set_textContent ''pulseNoise'' noiseVal d1;
               d3 = set_textContent ''pulseProgressMobile'' progressVal d2;
               d4 = set_textContent ''pulseNoiseMobile'' noiseVal d3;
               ratio = humanity_ratio p;
               ratioClass =
                 (if ratio > 1 then ''font-bold text-green-400''
                  else if ratio > 0.5 then ''font-bold text-yellow-400''
                  else ''font-bold text-red-400'');
               d5 = set_className ''pulseRatio'' (''text-lg '' @ ratioClass)
                      (set_textContent ''pulseRatio'' ratioVal d4);
               d6 = set_className ''pulseRatioMobile'' ratioClass
                      (set_textContent ''pulseRatioMobile'' ratioVal d5)
           in d6))"

record totals =
  totalEvents :: real
  totalVibe :: real
  totalNoise :: real
  totalProgress :: real

text \<open>The \<open>for\<close> loop of updateStats over \<open>Object.values(state.vibeScores.cells)\<close>.\<close>

fun scan_cells :: "cell list \<Rightarrow> totals \<Rightarrow> totals" where
  "scan_cells [] t = t"
| "scan_cells (cellData # rest) t =
     scan_cells rest
       (t\<lparr>totalVibe := totalVibe t + vibe cellData,
          totalEvents := totalEvents t + or0 (count cellData),
          totalNoise := totalNoise t + or0 (noise_count cellData),
          totalProgress := totalProgress t + or0 (progress_count cellData)\<rparr>)"

definition updateStats :: "formats \<Rightarrow> state \<Rightarrow> dom \<Rightarrow> js_error + dom" where
  "updateStats fmt st d =
     (case vibeScores st of
        None \<Rightarrow> Inr d
      | Some vs \<Rightarrow>
          if \<not> truthy (coreGrid st) then Inr d
          else
            (case cells vs of
               None \<Rightarrow> Inl TypeError
             | Some cs \<Rightarrow>
                 (let totalRegions = length cs;
                      t = scan_cells (map snd cs)
                            \<lparr>totalEvents = 0, totalVibe = 0, totalNoise = 0, totalProgress = 0\<rparr>;
                      avgVibe = (if totalRegions = 0 then NaN
                                 else Num (totalVibe t / real totalRegions));
                      d1 = set_textContent ''statRegions'' (toLocaleString fmt (real totalRegions)) d;
                      d2 = set_textContent ''statEvents'' (toLocaleString fmt (totalEvents t)) d1;
                      d3 = set_textContent ''statAvgVibe'' (num_toFixed fmt avgVibe 3) d2;
                      d4 = set_textContent ''statAvgVibeSide'' (num_toFixed fmt avgVibe 3) d3;
                      d5 = set_textContent ''statNoise'' (toLocaleString fmt (totalNoise t)) d4;
                      d6 = set_textContent ''statProgress'' (toLocaleString fmt (totalProgress t)) d5;
                      d7 = set_textContent ''statRegionsMobile''
                             (toLocaleString fmt (real totalRegions)) d6;
                      d8 = (case generated_at vs of
                              None \<Rightarrow> d7
                            | Some g \<Rightarrow>
                                if g = [] then d7
                                else set_textContent ''lastUpdated'' (toLocaleTimeString fmt g) d7)
                  in Inr d8)))"

subsection \<open>What a panel shows\<close>

text \<open>
  \<open>shows_text d d' i s\<close>: the element with id \<open>i\<close>, when document \<open>d\<close> has one, has the text \<open>s\<close>
  in document \<open>d'\<close>; likewise \<open>shows_class\<close> for its class name.
\<close>

definition shows_text :: "dom \<Rightarrow> dom \<Rightarrow> string \<Rightarrow> string \<Rightarrow> bool" where
  "shows_text d d' i s =
     (case d i of None \<Rightarrow> d' i = None | Some el \<Rightarrow> map_option textContent (d' i) = Some s)"

definition shows_class :: "dom \<Rightarrow> dom \<Rightarrow> string \<Rightarrow> string \<Rightarrow> bool" where
  "shows_class d d' i s =
     (case d i of None \<Rightarrow> d' i = None | Some el \<Rightarrow> map_option className (d' i) = Some s)"

text \<open>
  The statistics of the cells \<open>cs\<close> as the stats panel is to show them: the number of
  cells, the sums of the three counters with an absent counter as 0, and the mean vibe.
\<close>

definition stats_shown :: "formats \<Rightarrow> (string \<times> cell) list \<Rightarrow> dom \<Rightarrow> dom \<Rightarrow> bool" where
  "stats_shown fmt cs d d' \<longleftrightarrow>
     shows_text d d' ''statRegions'' (toLocaleString fmt (real (length cs)))
   \<and> shows_text d d' ''statRegionsMobile'' (toLocaleString fmt (real (length cs)))
   \<and> shows_text d d' ''statEvents''
        (toLocaleString fmt (\<Sum>c\<leftarrow>map snd cs. case count c of None \<Rightarrow> 0 | Some x \<Rightarrow> x))
   \<and> shows_text d d' ''statNoise''
        (toLocaleString fmt (\<Sum>c\<leftarrow>map snd cs. case noise_count c of None \<Rightarrow> 0 | Some x \<Rightarrow> x))
   \<and> shows_text d d' ''statProgress''
        (toLocaleString fmt (\<Sum>c\<leftarrow>map snd cs. case progress_count c of None \<Rightarrow> 0 | Some x \<Rightarrow> x))
   \<and> shows_text d d' ''statAvgVibe''
        (toFixed fmt ((\<Sum>c\<leftarrow>map snd cs. vibe c) / real (length cs)) 3)
   \<and> shows_text d d' ''statAvgVibeSide''
        (toFixed fmt ((\<Sum>c\<leftarrow>map snd cs. vibe c) / real (length cs)) 3)"

text \<open>The requests that one call of fetchWithDecompress for a URL can send.\<close>

definition attempts :: "config \<Rightarrow> string \<Rightarrow> options \<Rightarrow> request list set" where
  "attempts cfg url opts =
     (if useGzip cfg
      then {[(url @ ''.gz'', opts)], [(url @ ''.gz'', opts), (url, opts)]}
      else {[(url, opts)]})"

subsection \<open>Example inputs\<close>

text \<open>
  A small network: \<open>a.json.gz\<close> starts with the gzip magic number but is no gzip stream,
  \<open>b.json.gz\<close> holds the text \<open>{}\<close> in two chunks, \<open>c.json.gz\<close> is empty, \<open>d.json\<close> exists
  uncompressed only, and \<open>e.json\<close> does not exist.
\<close>

definition demo_env :: env where
  "demo_env =
     \<lparr>fetch = (\<lambda>u opts.
         if u = ''/data/a.json.gz''
         then Some \<lparr>ok = True, status = 200, body = Some [[0x1f, 0x8b, 8], [0]]\<rparr>
         else if u = ''/data/b.json.gz''
         then Some \<lparr>ok = True, status = 200, body = Some [[0x7b], [0x7d]]\<rparr>
         else if u = ''/data/c.json.gz''
         then Some \<lparr>ok = True, status = 200, body = Some []\<rparr>
         else if u = ''/data/d.json.gz''
         then Some \<lparr>ok = False, status = 404, body = Some []\<rparr>
         else if u = ''/data/d.json''
         then Some \<lparr>ok = True, status = 200, body = Some [[0x7b, 0x7d]]\<rparr>
         else if u = ''/data/e.json.gz''
         then Some \<lparr>ok = False, status = 404, body = Some []\<rparr>
         else if u = ''/data/e.json''
         then Some \<lparr>ok = False, status = 503, body = Some []\<rparr>
         else None),
      gunzip = (\<lambda>bytes. None)\<rparr>"

definition demo_json :: "8 word list \<Rightarrow> nat option" where
  "demo_json bytes = (if bytes = [0x7b, 0x7d] then Some 0 else None)"

definition gz :: config where
  "gz = \<lparr>dataBaseUrl = ''/data'', useGzip = True\<rparr>"

definition nogz :: config where
  "nogz = \<lparr>dataBaseUrl = ''/data'', useGzip = False\<rparr>"

text \<open>
  Two cells, a state that holds them, and a document with some of the panel elements.
  The example formatter prints the whole part of a number, and \<open>toFixed\<close> the whole part of
  the number scaled by the power of ten.
\<close>

definition demo_cells :: "(string \<times> cell) list" where
  "demo_cells =
     [(''832830fffffffff'',
       \<lparr>vibe = 0.5, count = Some 12, noise_count = Some 4, progress_count = None,
        p_int = Some 7, n_int = Some 25\<rparr>),
      (''83194dfffffffff'',
       \<lparr>vibe = 0.25, count = None, noise_count = Some 0, progress_count = Some 3,
        p_int = Some 0, n_int = Some 0\<rparr>)]"

definition demo_pulse :: pulse where
  "demo_pulse = \<lparr>progress_signal = 120, noise_signal = 80, humanity_ratio = 1.5\<rparr>"

definition demo_scores :: vibe_scores where
  "demo_scores =
     \<lparr>cells = Some demo_cells, data_pulse = Some demo_pulse, data_insights = None,
      generated_at = None\<rparr>"

definition demo_state :: state where
  "demo_state =
     \<lparr>coreGrid = JObj [(''features'', JArr [])], vibeScores = Some demo_scores,
      metadata = JNull, pulse = Some demo_pulse, insights = Some [],
      currentViewMode = ''progress'', isLoading = False\<rparr>"

definition no_grid_state :: state where
  "no_grid_state = demo_state\<lparr>coreGrid := JNull\<rparr>"

definition no_pulse_state :: state where
  "no_pulse_state = demo_state\<lparr>pulse := None\<rparr>"

definition demo_formats :: formats where
  "demo_formats =
     \<lparr>toLocaleString = (\<lambda>x. decimal (nat \<lfloor>x\<rfloor>)),
      toFixed = (\<lambda>x n. decimal (nat \<lfloor>x * 10 ^ n\<rfloor>)),
      toLocaleTimeString = (\<lambda>s. s)\<rparr>"

definition demo_dom :: dom where
  "demo_dom =
     (\<lambda>i. if i = ''statEvents'' \<or> i = ''statRegions'' \<or> i = ''statAvgVibe''
              \<or> i = ''pulseRatio'' \<or> i = ''pulseProgress''
           then Some \<lparr>textContent = ''-'', className = ''''\<rparr>
           else None)"

text \<open>
  A data directory as the pipeline leaves it, except that the grid is served uncompressed
  only: one-byte bodies stand for the three documents, which the example parsers map to
  the metadata, the grid and the vibe scores.
\<close>

definition demo_metadata :: jsval where
  "demo_metadata =
     JObj [(''available_files'', JObj [(''core_grid'', JStr ''core/h3_grid_res3.json'')])]"

definition demo_grid :: jsval where
  "demo_grid =
     JObj [(''type'', JStr ''FeatureCollection''),
           (''metadata'', JObj [(''resolution'', JNum 3)]),
           (''features'',
            JArr [JObj [(''id'', JStr ''832830fffffffff''),
                        (''properties'', JObj [(''name'', JStr ''a'')])],
                  JObj [(''id'', JStr ''83194dfffffffff'')]])]"

definition decorated_grid :: jsval where
  "decorated_grid =
     JObj [(''type'', JStr ''FeatureCollection''),
           (''metadata'', JObj [(''resolution'', JNum 3)]),
           (''features'',
            JArr [JObj [(''id'', JStr ''832830fffffffff''),
                        (''properties'', JObj [(''name'', JStr ''a''),
                                               (''h3_index'', JStr ''832830fffffffff'')])],
                  JObj [(''id'', JStr ''83194dfffffffff''),
                        (''properties'', JObj [(''h3_index'', JStr ''83194dfffffffff'')])]])]"

definition atlas_env :: env where
  "atlas_env =
     \<lparr>fetch = (\<lambda>u opts.
         if u = ''/data/metadata.json.gz''
         then Some \<lparr>ok = True, status = 200, body = Some [[0x6d]]\<rparr>
         else if u = ''/data/h3_grid_res3.json.gz''
         then Some \<lparr>ok = False, status = 404, body = Some []\<rparr>
         else if u = ''/data/h3_grid_res3.json''
         then Some \<lparr>ok = True, status = 200, body = Some [[0x67]]\<rparr>
         else if u = ''/data/vibe_scores.json.gz''
         then Some \<lparr>ok = True, status = 200, body = Some [[0x76]]\<rparr>
         else None),
      gunzip = (\<lambda>bytes. None)\<rparr>"

definition atlas_json :: "8 word list \<Rightarrow> jsval option" where
  "atlas_json bytes =
     (if bytes = [0x6d] then Some demo_metadata
      else if bytes = [0x67] then Some demo_grid
      else None)"

definition atlas_json_vibe :: "8 word list \<Rightarrow> vibe_scores option" where
  "atlas_json_vibe bytes = (if bytes = [0x76] then Some demo_scores else None)"

definition initial_state :: state where
  "initial_state =
     \<lparr>coreGrid = JNull, vibeScores = None, metadata = JNull, pulse = None, insights = None,
      currentViewMode = ''balanced'', isLoading = False\<rparr>"

definition demo_world :: world where
  "demo_world = \<lparr>app = initial_state, document = demo_dom, requests = []\<rparr>"

section \<open>Properties\<close>

lemma push_all: "push r = r"
proof (induction r)
  case Nil
  show ?case by (simp add: push.simps read_def)
next
  case (Cons c cs)
  then show ?case by (simp add: push.simps [of "c # cs"] read_def)
qed

subsection \<open>The body stream\<close>

text \<open>
  C2: when the first read of a body delivers a chunk, the stream that fetchWithDecompress
  rebuilds from that chunk and the rest of the reader holds exactly the chunks of the
  body, in their order.
\<close>

theorem combinedStream_same_chunks:
  "read chunks = (Some v, reader) \<Longrightarrow> combinedStream v reader = chunks"
  by (cases chunks) (auto simp: read_def combinedStream_def push_all)

theorem combinedStream_same_chunks_witness:
  "read [[0x1f, 0x8b], [7], [], [1, 2]] = (Some [0x1f, 0x8b], [[7], [], [1, 2]])
   \<and> combinedStream [0x1f, 0x8b] [[7], [], [1, 2]] = [[0x1f, 0x8b], [7], [], [1, 2 :: 8 word]]"
proof -
  have h: "read [[0x1f, 0x8b], [7], [], [1, 2]] = (Some [0x1f, 0x8b], [[7], [], [1, 2 :: 8 word]])"
    by (simp add: read_def)
  show ?thesis using h combinedStream_same_chunks [OF h] by simp
qed

lemma isEncrypted_iff:
  "isEncrypted v \<longleftrightarrow> 2 \<le> length v \<and> v ! 0 = 0x1f \<and> v ! 1 = 0x8b"
  by (auto simp: isEncrypted_def byte_at_def)

text \<open>
  C1: for an ok response whose body has a first chunk, fetchWithDecompress decompresses
  the whole body as gzip exactly when that chunk starts with the bytes 0x1f 0x8b, and
  otherwise parses the body as JSON; when the bytes match and decompression fails, the
  error thrown is the one whose message starts with CORRUPTED_GZIP.
\<close>

theorem gzip_iff_magic:
  assumes "fetch e (if useGzip cfg then url @ ''.gz'' else url) opts = Some r"
    and "ok r" and "body r = Some (v # cs)"
  shows "fst (fetchWithDecompress cfg e json url opts reqs) =
           (if 2 \<le> length v \<and> v ! 0 = 0x1f \<and> v ! 1 = 0x8b
            then (case gunzip e (concat (v # cs)) of
                    None \<Rightarrow> Inl (Error CORRUPTED_GZIP)
                  | Some bytes \<Rightarrow>
                      (case json bytes of
                         None \<Rightarrow> Inl (Error CORRUPTED_GZIP)
                       | Some j \<Rightarrow> Inr (Some j)))
            else (case json (concat (v # cs)) of
                    None \<Rightarrow> Inl SyntaxError
                  | Some j \<Rightarrow> Inr (Some j)))
         \<and> take 14 CORRUPTED_GZIP = ''CORRUPTED_GZIP''"
  using assms
  by (auto simp: fetchWithDecompress_def Let_def read_def combinedStream_def push_all
      isEncrypted_iff stream_json_def CORRUPTED_GZIP_def split: option.splits)

theorem gzip_iff_magic_witness:
  "fst (fetchWithDecompress gz demo_env demo_json ''/data/a.json'' \<lparr>cache = None\<rparr> [])
     = Inl (Error CORRUPTED_GZIP)
   \<and> fst (fetchWithDecompress gz demo_env demo_json ''/data/b.json'' \<lparr>cache = None\<rparr> [])
     = Inr (Some 0)"
proof -
  have a: "fetch demo_env (if useGzip gz then ''/data/a.json'' @ ''.gz'' else ''/data/a.json'')
             \<lparr>cache = None\<rparr> = Some \<lparr>ok = True, status = 200, body = Some [[0x1f, 0x8b, 8], [0]]\<rparr>"
    by (simp add: demo_env_def gz_def)
  have b: "fetch demo_env (if useGzip gz then ''/data/b.json'' @ ''.gz'' else ''/data/b.json'')
             \<lparr>cache = None\<rparr> = Some \<lparr>ok = True, status = 200, body = Some [[0x7b], [0x7d]]\<rparr>"
    by (simp add: demo_env_def gz_def)
  show ?thesis
    using gzip_iff_magic [OF a, of "[0x1f, 0x8b, 8]" "[[0]]" demo_json "[]"]
      gzip_iff_magic [OF b, of "[0x7b]" "[[0x7d]]" demo_json "[]"]
    by (simp add: demo_env_def demo_json_def)
qed

text \<open>
  C10: an ok response with an empty body makes fetchWithDecompress return null; a first
  chunk of fewer than two bytes is not taken for gzip, and the body is parsed as JSON.
\<close>

theorem empty_body_null_short_chunk_plain:
  assumes "fetch e (if useGzip cfg then url @ ''.gz'' else url) opts = Some r" and "ok r"
  shows "(body r = Some [] \<longrightarrow> fst (fetchWithDecompress cfg e json url opts reqs) = Inr None)
       \<and> (\<forall>v cs. body r = Some (v # cs) \<and> length v < 2 \<longrightarrow>
            \<not> isEncrypted v
            \<and> fst (fetchWithDecompress cfg e json url opts reqs) = stream_json json (v # cs))"
  using assms
  by (auto simp: fetchWithDecompress_def Let_def read_def combinedStream_def push_all
      isEncrypted_iff split: option.splits)

theorem empty_body_null_short_chunk_plain_witness:
  "fst (fetchWithDecompress gz demo_env demo_json ''/data/c.json'' \<lparr>cache = None\<rparr> []) = Inr None
   \<and> fst (fetchWithDecompress gz demo_env demo_json ''/data/b.json'' \<lparr>cache = None\<rparr> [])
       = stream_json demo_json [[0x7b], [0x7d]]"
proof -
  have c: "fetch demo_env (if useGzip gz then ''/data/c.json'' @ ''.gz'' else ''/data/c.json'')
             \<lparr>cache = None\<rparr> = Some \<lparr>ok = True, status = 200, body = Some []\<rparr>"
    by (simp add: demo_env_def gz_def)
  have b: "fetch demo_env (if useGzip gz then ''/data/b.json'' @ ''.gz'' else ''/data/b.json'')
             \<lparr>cache = None\<rparr> = Some \<lparr>ok = True, status = 200, body = Some [[0x7b], [0x7d]]\<rparr>"
    by (simp add: demo_env_def gz_def)
  show ?thesis
    using empty_body_null_short_chunk_plain [OF c, of demo_json "[]"]
      empty_body_null_short_chunk_plain [OF b, of demo_json "[]"]
    by simp
qed

subsection \<open>The fallback to the uncompressed file\<close>

text \<open>
  C3: when the first response is not ok and gzip is enabled, the uncompressed URL is
  requested next; an ok fallback response yields its parsed JSON, and an HTTP error is
  thrown exactly when the fallback response is not ok either. With gzip disabled the
  HTTP error is thrown after the one request.
\<close>

theorem gzip_fallback:
  assumes "fetch e (if useGzip cfg then url @ ''.gz'' else url) opts = Some r" and "\<not> ok r"
  shows "(useGzip cfg \<longrightarrow>
            snd (fetchWithDecompress cfg e json url opts reqs)
              = reqs @ [(url @ ''.gz'', opts), (url, opts)]
          \<and> (\<forall>fb. fetch e url opts = Some fb \<and> ok fb \<longrightarrow>
                fst (fetchWithDecompress cfg e json url opts reqs) = response_json json fb)
          \<and> (\<forall>fb. fetch e url opts = Some fb \<and> \<not> ok fb \<longrightarrow>
                fst (fetchWithDecompress cfg e json url opts reqs)
                  = Inl (Error (''HTTP '' @ decimal (status fb))))
          \<and> (is_http_error (fst (fetchWithDecompress cfg e json url opts reqs))
                \<longleftrightarrow> (\<exists>fb. fetch e url opts = Some fb \<and> \<not> ok fb)))
       \<and> (\<not> useGzip cfg \<longrightarrow>
            fetchWithDecompress cfg e json url opts reqs
              = (Inl (Error (''HTTP '' @ decimal (status r))), reqs @ [(url, opts)]))"
proof (cases "useGzip cfg")
  case True
  with assms have f: "fetch e (url @ ''.gz'') opts = Some r"
    by simp
  show ?thesis
  proof (cases "fetch e url opts")
    case None
    with True f assms(2) show ?thesis
      by (simp add: fetchWithDecompress_def Let_def is_http_error_def)
  next
    case (Some fb)
    with True f assms(2) show ?thesis
      by (cases "json (concat (case body fb of None \<Rightarrow> [] | Some cs \<Rightarrow> cs))")
        (simp_all add: fetchWithDecompress_def Let_def is_http_error_def response_json_def
          stream_json_def)
  qed
next
  case False
  with assms show ?thesis
    by (simp add: fetchWithDecompress_def Let_def)
qed

theorem gzip_fallback_witness:
  "fetchWithDecompress gz demo_env demo_json ''/data/d.json'' \<lparr>cache = None\<rparr> []
     = (Inr (Some 0), [(''/data/d.json.gz'', \<lparr>cache = None\<rparr>), (''/data/d.json'', \<lparr>cache = None\<rparr>)])
   \<and> fst (fetchWithDecompress gz demo_env demo_json ''/data/e.json'' \<lparr>cache = None\<rparr> [])
     = Inl (Error ''HTTP 503'')
   \<and> fetchWithDecompress nogz demo_env demo_json ''/data/d.json.gz'' \<lparr>cache = None\<rparr> []
     = (Inl (Error ''HTTP 404''), [(''/data/d.json.gz'', \<lparr>cache = None\<rparr>)])"
proof -
  have d: "fetch demo_env (if useGzip gz then ''/data/d.json'' @ ''.gz'' else ''/data/d.json'')
             \<lparr>cache = None\<rparr> = Some \<lparr>ok = False, status = 404, body = Some []\<rparr>"
    by (simp add: demo_env_def gz_def)
  have e: "fetch demo_env (if useGzip gz then ''/data/e.json'' @ ''.gz'' else ''/data/e.json'')
             \<lparr>cache = None\<rparr> = Some \<lparr>ok = False, status = 404, body = Some []\<rparr>"
    by (simp add: demo_env_def gz_def)
  have n: "fetch demo_env (if useGzip nogz then ''/data/d.json.gz'' @ ''.gz'' else ''/data/d.json.gz'')
             \<lparr>cache = None\<rparr> = Some \<lparr>ok = False, status = 404, body = Some []\<rparr>"
    by (simp add: demo_env_def nogz_def)
  have dec: "decimal 503 = ''503''" "decimal 404 = ''404''"
    by (simp_all add: decimal.simps)
  show ?thesis
    using gzip_fallback [OF d, of demo_json "[]"] gzip_fallback [OF e, of demo_json "[]"]
      gzip_fallback [OF n, of demo_json "[]"] dec
    by (simp add: demo_env_def demo_json_def gz_def nogz_def response_json_def stream_json_def
        prod_eq_iff)
qed

subsection \<open>Vibe buckets\<close>

text \<open>
  C4: getVibeColor and getVibeLabel return a result for every vibe, cut the reals at the
  same four thresholds -0.5, 0, 0.3 and 0.6 into five buckets, and agree on the bucket:
  Crisis with #ef4444, Tense with #f97316, Neutral with #eab308, Stable with #84cc16 and
  Thriving with #22c55e.
\<close>

theorem vibe_color_label_agree:
  "(getVibeLabel v = ''Crisis'' \<longleftrightarrow> getVibeColor v = ''#ef4444'')
   \<and> (getVibeLabel v = ''Tense'' \<longleftrightarrow> getVibeColor v = ''#f97316'')
   \<and> (getVibeLabel v = ''Neutral'' \<longleftrightarrow> getVibeColor v = ''#eab308'')
   \<and> (getVibeLabel v = ''Stable'' \<longleftrightarrow> getVibeColor v = ''#84cc16'')
   \<and> (getVibeLabel v = ''Thriving'' \<longleftrightarrow> getVibeColor v = ''#22c55e'')
   \<and> (getVibeColor v = ''#ef4444'' \<longleftrightarrow> v < - 0.5)
   \<and> (getVibeColor v = ''#f97316'' \<longleftrightarrow> - 0.5 \<le> v \<and> v < 0)
   \<and> (getVibeColor v = ''#eab308'' \<longleftrightarrow> 0 \<le> v \<and> v < 0.3)
   \<and> (getVibeColor v = ''#84cc16'' \<longleftrightarrow> 0.3 \<le> v \<and> v < 0.6)
   \<and> (getVibeColor v = ''#22c55e'' \<longleftrightarrow> 0.6 \<le> v)
   \<and> getVibeColor v \<in> {''#ef4444'', ''#f97316'', ''#eab308'', ''#84cc16'', ''#22c55e''}
   \<and> getVibeLabel v \<in> {''Crisis'', ''Tense'', ''Neutral'', ''Stable'', ''Thriving''}"
  by (simp add: getVibeLabel_def getVibeColor_def)

theorem vibe_color_label_agree_witness:
  "getVibeLabel 0.45 = ''Stable'' \<and> getVibeColor 0.45 = ''#84cc16''"
  using vibe_color_label_agree [of "0.45"] by simp

subsection \<open>Visualization value\<close>

lemma h3_index_not_inherited: "is_h3_index s \<Longrightarrow> s \<notin> set object_prototype_names"
  by (auto simp: is_h3_index_def object_prototype_names_def)

text \<open>
  C9: with the vibe scores loaded, getVisualizationValue returns 0 for every H3 index that
  has no cell, in every view mode; for a cell with p_int and n_int at least 0 and vibe in
  [-1, 1] it returns a number in [0, 1], which is min(1, p_int/10) in mode progress,
  min(1, n_int/10) in mode noise and (vibe+1)/2 in every other mode.
\<close>

theorem getVisualizationValue_range:
  assumes "vibeScores st = Some vs" and "cells vs = Some cs"
  shows "(is_h3_index h3Index \<and> map_of cs h3Index = None \<longrightarrow>
            getVisualizationValue st h3Index = Inr (Num 0))
       \<and> (\<forall>c p n. map_of cs h3Index = Some c \<and> p_int c = Some p \<and> n_int c = Some n
                  \<and> 0 \<le> p \<and> 0 \<le> n \<and> - 1 \<le> vibe c \<and> vibe c \<le> 1 \<longrightarrow>
            (\<exists>x. getVisualizationValue st h3Index = Inr (Num x) \<and> 0 \<le> x \<and> x \<le> 1
               \<and> x = (if currentViewMode st = ''progress'' then min 1 (p / 10)
                      else if currentViewMode st = ''noise'' then min 1 (n / 10)
                      else (vibe c + 1) / 2)))"
proof -
  have none: "getVisualizationValue st h3Index = Inr (Num 0)"
    if "is_h3_index h3Index" and "map_of cs h3Index = None"
    using assms that h3_index_not_inherited [of h3Index]
    by (simp add: getVisualizationValue_def)
  have some: "\<exists>x. getVisualizationValue st h3Index = Inr (Num x) \<and> 0 \<le> x \<and> x \<le> 1
               \<and> x = (if currentViewMode st = ''progress'' then min 1 (p / 10)
                      else if currentViewMode st = ''noise'' then min 1 (n / 10)
                      else (vibe c + 1) / 2)"
    if "map_of cs h3Index = Some c" and "p_int c = Some p" and "n_int c = Some n"
      and "0 \<le> p" and "0 \<le> n" and "- 1 \<le> vibe c" and "vibe c \<le> 1" for c p n
    using assms that by (auto simp: getVisualizationValue_def to_num_def)
  from none some show ?thesis by blast
qed

theorem getVisualizationValue_range_witness:
  "getVisualizationValue demo_state ''832830fffffffff'' = Inr (Num 0.7)
   \<and> getVisualizationValue demo_state ''8029fffffffffff'' = Inr (Num 0)"
proof -
  have h: "vibeScores demo_state = Some demo_scores" "cells demo_scores = Some demo_cells"
    by (simp_all add: demo_state_def demo_scores_def)
  have m: "map_of demo_cells ''832830fffffffff''
      = Some \<lparr>vibe = 0.5, count = Some 12, noise_count = Some 4, progress_count = None,
              p_int = Some 7, n_int = Some 25\<rparr>"
    "map_of demo_cells ''8029fffffffffff'' = None"
    "currentViewMode demo_state = ''progress''"
    "is_h3_index ''8029fffffffffff''"
    by (simp_all add: demo_cells_def demo_state_def is_h3_index_def)
  show ?thesis
    using getVisualizationValue_range [OF h, of "''832830fffffffff''"]
      getVisualizationValue_range [OF h, of "''8029fffffffffff''"] m
    by simp
qed

subsection \<open>The panels\<close>

lemma set_textContent_apply:
  "set_textContent i s d j =
     (if j = i then map_option (\<lambda>el. el\<lparr>textContent := s\<rparr>) (d i) else d j)"
  by (simp add: set_textContent_def split: option.splits)

lemma set_className_apply:
  "set_className i s d j =
     (if j = i then map_option (\<lambda>el. el\<lparr>className := s\<rparr>) (d i) else d j)"
  by (simp add: set_className_def split: option.splits)

lemma or0_eq: "or0 x = (case x of None \<Rightarrow> 0 | Some v \<Rightarrow> v)"
  by (simp add: or0_def split: option.splits)

lemma scan_cells_sums:
  "scan_cells cs t =
     \<lparr>totalEvents = totalEvents t + (\<Sum>c\<leftarrow>cs. case count c of None \<Rightarrow> 0 | Some x \<Rightarrow> x),
      totalVibe = totalVibe t + (\<Sum>c\<leftarrow>cs. vibe c),
      totalNoise = totalNoise t + (\<Sum>c\<leftarrow>cs. case noise_count c of None \<Rightarrow> 0 | Some x \<Rightarrow> x),
      totalProgress = totalProgress t
        + (\<Sum>c\<leftarrow>cs. case progress_count c of None \<Rightarrow> 0 | Some x \<Rightarrow> x)\<rparr>"
proof (induction cs arbitrary: t)
  case Nil
  show ?case by simp
next
  case (Cons c cs)
  show ?case by (simp add: Cons.IH or0_eq add.assoc)
qed

lemma shows_text_I:
  "d' i = map_option (\<lambda>el. el\<lparr>textContent := s\<rparr>) (d i) \<Longrightarrow> shows_text d d' i s"
  by (simp add: shows_text_def split: option.splits)

lemma updateStats_result:
  assumes "vibeScores st = Some vs" and "cells vs = Some cs" and "cs \<noteq> []"
    and "truthy (coreGrid st)"
  shows "\<exists>d'. updateStats fmt st d = Inr d'
     \<and> (\<forall>i. i \<noteq> ''lastUpdated'' \<longrightarrow> d' i =
          (set_textContent ''statRegionsMobile'' (toLocaleString fmt (real (length cs)))
          (set_textContent ''statProgress''
             (toLocaleString fmt (totalProgress (scan_cells (map snd cs)
                \<lparr>totalEvents = 0, totalVibe = 0, totalNoise = 0, totalProgress = 0\<rparr>)))
          (set_textContent ''statNoise''
             (toLocaleString fmt (totalNoise (scan_cells (map snd cs)
                \<lparr>totalEvents = 0, totalVibe = 0, totalNoise = 0, totalProgress = 0\<rparr>)))
          (set_textContent ''statAvgVibeSide''
             (toFixed fmt (totalVibe (scan_cells (map snd cs)
                \<lparr>totalEvents = 0, totalVibe = 0, totalNoise = 0, totalProgress = 0\<rparr>)
                  / real (length cs)) 3)
          (set_textContent ''statAvgVibe''
             (toFixed fmt (totalVibe (scan_cells (map snd cs)
                \<lparr>totalEvents = 0, totalVibe = 0, totalNoise = 0, totalProgress = 0\<rparr>)
                  / real (length cs)) 3)
          (set_textContent ''statEvents''
             (toLocaleString fmt (totalEvents (scan_cells (map snd cs)
                \<lparr>totalEvents = 0, totalVibe = 0, totalNoise = 0, totalProgress = 0\<rparr>)))
          (set_textContent ''statRegions'' (toLocaleString fmt (real (length cs))) d))))))) i)"
  using assms
  by (cases "generated_at vs")
     (simp_all add: updateStats_def Let_def num_toFixed_def set_textContent_apply [of "''lastUpdated''"])


text \<open>
  C7: when state.pulse is null, updateGlobalPulse leaves the document as it is. Otherwise
  the ticker elements that exist show the formatted progress_signal, noise_signal and
  humanity_ratio, and the ratio elements get the green class when the ratio is above 1,
  the yellow class when it is above 0.5 and at most 1, and the red class when it is at
  most 0.5.
\<close>

theorem updateGlobalPulse_ticker:
  "(pulse st = None \<longrightarrow> updateGlobalPulse fmt st d = d)
   \<and> (\<forall>p. pulse st = Some p \<longrightarrow>
        shows_text d (updateGlobalPulse fmt st d) ''pulseProgress''
          (toLocaleString fmt (progress_signal p))
      \<and> shows_text d (updateGlobalPulse fmt st d) ''pulseProgressMobile''
          (toLocaleString fmt (progress_signal p))
      \<and> shows_text d (updateGlobalPulse fmt st d) ''pulseNoise''
          (toLocaleString fmt (noise_signal p))
      \<and> shows_text d (updateGlobalPulse fmt st d) ''pulseNoiseMobile''
          (toLocaleString fmt (noise_signal p))
      \<and> shows_text d (updateGlobalPulse fmt st d) ''pulseRatio''
          (toFixed fmt (humanity_ratio p) 2)
      \<and> shows_text d (updateGlobalPulse fmt st d) ''pulseRatioMobile''
          (toFixed fmt (humanity_ratio p) 2)
      \<and> (humanity_ratio p > 1 \<longrightarrow>
            shows_class d (updateGlobalPulse fmt st d) ''pulseRatioMobile''
              ''font-bold text-green-400''
          \<and> shows_class d (updateGlobalPulse fmt st d) ''pulseRatio''
              ''text-lg font-bold text-green-400'')
      \<and> (0.5 < humanity_ratio p \<and> humanity_ratio p \<le> 1 \<longrightarrow>
            shows_class d (updateGlobalPulse fmt st d) ''pulseRatioMobile''
              ''font-bold text-yellow-400''
          \<and> shows_class d (updateGlobalPulse fmt st d) ''pulseRatio''
              ''text-lg font-bold text-yellow-400'')
      \<and> (humanity_ratio p \<le> 0.5 \<longrightarrow>
            shows_class d (updateGlobalPulse fmt st d) ''pulseRatioMobile''
              ''font-bold text-red-400''
          \<and> shows_class d (updateGlobalPulse fmt st d) ''pulseRatio''
              ''text-lg font-bold text-red-400''))"
proof -
  have none: "pulse st = None \<longrightarrow> updateGlobalPulse fmt st d = d"
    by (simp add: updateGlobalPulse_def)
  have some: "shows_text d (updateGlobalPulse fmt st d) ''pulseProgress''
          (toLocaleString fmt (progress_signal p))
      \<and> shows_text d (updateGlobalPulse fmt st d) ''pulseProgressMobile''
          (toLocaleString fmt (progress_signal p))
      \<and> shows_text d (updateGlobalPulse fmt st d) ''pulseNoise''
          (toLocaleString fmt (noise_signal p))
      \<and> shows_text d (updateGlobalPulse fmt st d) ''pulseNoiseMobile''
          (toLocaleString fmt (noise_signal p))
      \<and> shows_text d (updateGlobalPulse fmt st d) ''pulseRatio''
          (toFixed fmt (humanity_ratio p) 2)
      \<and> shows_text d (updateGlobalPulse fmt st d) ''pulseRatioMobile''
          (toFixed fmt (humanity_ratio p) 2)
      \<and> (humanity_ratio p > 1 \<longrightarrow>
            shows_class d (updateGlobalPulse fmt st d) ''pulseRatioMobile''
              ''font-bold text-green-400''
          \<and> shows_class d (updateGlobalPulse fmt st d) ''pulseRatio''
              ''text-lg font-bold text-green-400'')
      \<and> (0.5 < humanity_ratio p \<and> humanity_ratio p \<le> 1 \<longrightarrow>
            shows_class d (updateGlobalPulse fmt st d) ''pulseRatioMobile''
              ''font-bold text-yellow-400''
          \<and> shows_class d (updateGlobalPulse fmt st d) ''pulseRatio''
              ''text-lg font-bold text-yellow-400'')
      \<and> (humanity_ratio p \<le> 0.5 \<longrightarrow>
            shows_class d (updateGlobalPulse fmt st d) ''pulseRatioMobile''
              ''font-bold text-red-400''
          \<and> shows_class d (updateGlobalPulse fmt st d) ''pulseRatio''
              ''text-lg font-bold text-red-400'')" if p: "pulse st = Some p" for p
  proof -
    define c where "c = (if humanity_ratio p > 1 then ''font-bold text-green-400''
                  else if humanity_ratio p > 0.5 then ''font-bold text-yellow-400''
                  else ''font-bold text-red-400'')"
    have u: "updateGlobalPulse fmt st d =
        set_className ''pulseRatioMobile'' c
         (set_textContent ''pulseRatioMobile'' (toFixed fmt (humanity_ratio p) 2)
         (set_className ''pulseRatio'' (''text-lg '' @ c)
         (set_textContent ''pulseRatio'' (toFixed fmt (humanity_ratio p) 2)
         (set_textContent ''pulseNoiseMobile'' (toLocaleString fmt (noise_signal p))
         (set_textContent ''pulseProgressMobile'' (toLocaleString fmt (progress_signal p))
         (set_textContent ''pulseNoise'' (toLocaleString fmt (noise_signal p))
         (set_textContent ''pulseProgress'' (toLocaleString fmt (progress_signal p)) d)))))))"
      unfolding updateGlobalPulse_def Let_def c_def using p by simp
    have t1: "shows_text d (updateGlobalPulse fmt st d) ''pulseProgress''
          (toLocaleString fmt (progress_signal p))"
      unfolding u by (cases "d ''pulseProgress''")
        (simp_all add: shows_text_def set_textContent_apply set_className_apply)
    have t2: "shows_text d (updateGlobalPulse fmt st d) ''pulseProgressMobile''
          (toLocaleString fmt (progress_signal p))"
      unfolding u by (cases "d ''pulseProgressMobile''")
        (simp_all add: shows_text_def set_textContent_apply set_className_apply)
    have t3: "shows_text d (updateGlobalPulse fmt st d) ''pulseNoise''
          (toLocaleString fmt (noise_signal p))"
      unfolding u by (cases "d ''pulseNoise''")
        (simp_all add: shows_text_def set_textContent_apply set_className_apply)
    have t4: "shows_text d (updateGlobalPulse fmt st d) ''pulseNoiseMobile''
          (toLocaleString fmt (noise_signal p))"
      unfolding u by (cases "d ''pulseNoiseMobile''")
        (simp_all add: shows_text_def set_textContent_apply set_className_apply)
    have t5: "shows_text d (updateGlobalPulse fmt st d) ''pulseRatio''
          (toFixed fmt (humanity_ratio p) 2)"
      unfolding u by (cases "d ''pulseRatio''")
        (simp_all add: shows_text_def set_textContent_apply set_className_apply)
    have t6: "shows_text d (updateGlobalPulse fmt st d) ''pulseRatioMobile''
          (toFixed fmt (humanity_ratio p) 2)"
      unfolding u by (cases "d ''pulseRatioMobile''")
        (simp_all add: shows_text_def set_textContent_apply set_className_apply)
    have c1: "shows_class d (updateGlobalPulse fmt st d) ''pulseRatioMobile'' c"
      unfolding u by (cases "d ''pulseRatioMobile''")
        (simp_all add: shows_class_def set_textContent_apply set_className_apply)
    have c2: "shows_class d (updateGlobalPulse fmt st d) ''pulseRatio'' (''text-lg '' @ c)"
      unfolding u by (cases "d ''pulseRatio''")
        (simp_all add: shows_class_def set_textContent_apply set_className_apply)
    have g: "humanity_ratio p > 1 \<Longrightarrow> c = ''font-bold text-green-400''"
      and y: "0.5 < humanity_ratio p \<and> humanity_ratio p \<le> 1 \<Longrightarrow> c = ''font-bold text-yellow-400''"
      and r: "humanity_ratio p \<le> 0.5 \<Longrightarrow> c = ''font-bold text-red-400''"
      by (simp_all add: c_def)
    from c1 c2 g have cg: "humanity_ratio p > 1 \<longrightarrow>
            shows_class d (updateGlobalPulse fmt st d) ''pulseRatioMobile''
              ''font-bold text-green-400''
          \<and> shows_class d (updateGlobalPulse fmt st d) ''pulseRatio''
              ''text-lg font-bold text-green-400''"
      by auto
    from c1 c2 y have cy: "0.5 < humanity_ratio p \<and> humanity_ratio p \<le> 1 \<longrightarrow>
            shows_class d (updateGlobalPulse fmt st d) ''pulseRatioMobile''
              ''font-bold text-yellow-400''
          \<and> shows_class d (updateGlobalPulse fmt st d) ''pulseRatio''
              ''text-lg font-bold text-yellow-400''"
      by auto
    from c1 c2 r have cr: "humanity_ratio p \<le> 0.5 \<longrightarrow>
            shows_class d (updateGlobalPulse fmt st d) ''pulseRatioMobile''
              ''font-bold text-red-400''
          \<and> shows_class d (updateGlobalPulse fmt st d) ''pulseRatio''
              ''text-lg font-bold text-red-400''"
      by auto
    from t1 t2 t3 t4 t5 t6 cg cy cr show ?thesis by blast
  qed
  from none some show ?thesis by blast
qed

theorem updateGlobalPulse_ticker_witness:
  "map_option textContent (updateGlobalPulse demo_formats demo_state demo_dom ''pulseRatio'')
     = Some ''150''
   \<and> map_option className (updateGlobalPulse demo_formats demo_state demo_dom ''pulseRatio'')
     = Some ''text-lg font-bold text-green-400''
   \<and> map_option textContent (updateGlobalPulse demo_formats demo_state demo_dom ''pulseProgress'')
     = Some ''120''
   \<and> updateGlobalPulse demo_formats no_pulse_state demo_dom = demo_dom"
proof -
  have dec: "decimal 150 = ''150''" "decimal 120 = ''120''"
    by (simp_all add: decimal.simps)
  have p: "pulse demo_state = Some demo_pulse" "pulse no_pulse_state = None"
    by (simp_all add: demo_state_def no_pulse_state_def)
  have f: "1.5 * 10 ^ 2 = (150 :: real)"
    by simp
  show ?thesis
    using updateGlobalPulse_ticker [of demo_state demo_formats demo_dom]
      updateGlobalPulse_ticker [of no_pulse_state demo_formats demo_dom] p dec f
    by (simp add: shows_text_def shows_class_def demo_dom_def demo_formats_def demo_pulse_def)
qed

text \<open>
  C5, as stated, fails: updateStats returns before it computes anything while the core
  grid is not loaded, also when the vibe scores are loaded and have cells. Here the
  document is left as it was, and the events element does not show the sum of the counts.
\<close>

theorem updateStats_without_grid_counterexample:
  "updateStats demo_formats no_grid_state demo_dom = Inr demo_dom
   \<and> \<not> stats_shown demo_formats demo_cells demo_dom demo_dom"
proof -
  have dec: "decimal 12 = ''12''"
    by (simp add: decimal.simps)
  have a: "updateStats demo_formats no_grid_state demo_dom = Inr demo_dom"
    by (simp add: updateStats_def no_grid_state_def demo_state_def)
  have b: "\<not> shows_text demo_dom demo_dom ''statEvents''
        (toLocaleString demo_formats
           (\<Sum>c\<leftarrow>map snd demo_cells. case count c of None \<Rightarrow> 0 | Some x \<Rightarrow> x))"
    using dec by (simp add: shows_text_def demo_dom_def demo_formats_def demo_cells_def)
  from a b show ?thesis
    by (simp add: stats_shown_def)
qed

text \<open>
  C5, amended: when the vibe scores are loaded with a non-empty cells map and the core
  grid is loaded too, updateStats shows the number of cells as the region count, the sums
  of count, noise_count and progress_count over the cells (an absent or zero field adds
  0) as the totals, and the sum of the vibe fields divided by the number of cells as the
  average vibe.
\<close>

theorem updateStats_sums:
  assumes "vibeScores st = Some vs" and "cells vs = Some cs" and "cs \<noteq> []"
    and "truthy (coreGrid st)"
  shows "\<exists>d'. updateStats fmt st d = Inr d' \<and> stats_shown fmt cs d d'"
proof -
  from updateStats_result [OF assms] obtain d' where
    r: "updateStats fmt st d = Inr d'" and
    v: "\<forall>i. i \<noteq> ''lastUpdated'' \<longrightarrow> d' i =
          (set_textContent ''statRegionsMobile'' (toLocaleString fmt (real (length cs)))
          (set_textContent ''statProgress''
             (toLocaleString fmt (totalProgress (scan_cells (map snd cs)
                \<lparr>totalEvents = 0, totalVibe = 0, totalNoise = 0, totalProgress = 0\<rparr>)))
          (set_textContent ''statNoise''
             (toLocaleString fmt (totalNoise (scan_cells (map snd cs)
                \<lparr>totalEvents = 0, totalVibe = 0, totalNoise = 0, totalProgress = 0\<rparr>)))
          (set_textContent ''statAvgVibeSide''
             (toFixed fmt (totalVibe (scan_cells (map snd cs)
                \<lparr>totalEvents = 0, totalVibe = 0, totalNoise = 0, totalProgress = 0\<rparr>)
                  / real (length cs)) 3)
          (set_textContent ''statAvgVibe''
             (toFixed fmt (totalVibe (scan_cells (map snd cs)
                \<lparr>totalEvents = 0, totalVibe = 0, totalNoise = 0, totalProgress = 0\<rparr>)
                  / real (length cs)) 3)
          (set_textContent ''statEvents''
             (toLocaleString fmt (totalEvents (scan_cells (map snd cs)
                \<lparr>totalEvents = 0, totalVibe = 0, totalNoise = 0, totalProgress = 0\<rparr>)))
          (set_textContent ''statRegions'' (toLocaleString fmt (real (length cs))) d))))))) i"
    by blast
  have 1: "shows_text d d' ''statRegions'' (toLocaleString fmt (real (length cs)))"
    by (rule shows_text_I) (simp add: v set_textContent_apply)
  have 2: "shows_text d d' ''statRegionsMobile'' (toLocaleString fmt (real (length cs)))"
    by (rule shows_text_I) (simp add: v set_textContent_apply)
  have 3: "shows_text d d' ''statEvents''
        (toLocaleString fmt (\<Sum>c\<leftarrow>map snd cs. case count c of None \<Rightarrow> 0 | Some x \<Rightarrow> x))"
    by (rule shows_text_I) (simp add: v set_textContent_apply scan_cells_sums)
  have 4: "shows_text d d' ''statNoise''
        (toLocaleString fmt (\<Sum>c\<leftarrow>map snd cs. case noise_count c of None \<Rightarrow> 0 | Some x \<Rightarrow> x))"
    by (rule shows_text_I) (simp add: v set_textContent_apply scan_cells_sums)
  have 5: "shows_text d d' ''statProgress''
        (toLocaleString fmt (\<Sum>c\<leftarrow>map snd cs. case progress_count c of None \<Rightarrow> 0 | Some x \<Rightarrow> x))"
    by (rule shows_text_I) (simp add: v set_textContent_apply scan_cells_sums)
  have 6: "shows_text d d' ''statAvgVibe''
        (toFixed fmt ((\<Sum>c\<leftarrow>map snd cs. vibe c) / real (length cs)) 3)"
    by (rule shows_text_I) (simp add: v set_textContent_apply scan_cells_sums)
  have 7: "shows_text d d' ''statAvgVibeSide''
        (toFixed fmt ((\<Sum>c\<leftarrow>map snd cs. vibe c) / real (length cs)) 3)"
    by (rule shows_text_I) (simp add: v set_textContent_apply scan_cells_sums)
  from r 1 2 3 4 5 6 7 show ?thesis
    unfolding stats_shown_def by blast
qed



theorem updateStats_sums_witness:
  "\<exists>d'. updateStats demo_formats demo_state demo_dom = Inr d'
      \<and> map_option textContent (d' ''statEvents'') = Some ''12''
      \<and> map_option textContent (d' ''statRegions'') = Some ''2''
      \<and> map_option textContent (d' ''statAvgVibe'') = Some ''375''
      \<and> d' ''statNoise'' = None"
proof -
  have h: "vibeScores demo_state = Some demo_scores" "cells demo_scores = Some demo_cells"
    "demo_cells \<noteq> []" "truthy (coreGrid demo_state)"
    by (simp_all add: demo_state_def demo_scores_def demo_cells_def)
  have dec: "decimal 12 = ''12''" "decimal 2 = ''2''" "decimal 375 = ''375''"
    by (simp_all add: decimal.simps)
  have f: "(0.5 + 0.25) / 2 * 10 ^ 3 = (375 :: real)"
    by simp
  from updateStats_sums [OF h, of demo_formats demo_dom] obtain d'
    where "updateStats demo_formats demo_state demo_dom = Inr d'"
      and "stats_shown demo_formats demo_cells demo_dom d'"
    by blast
  then show ?thesis
    using dec f
    by (simp add: stats_shown_def shows_text_def demo_dom_def demo_formats_def demo_cells_def)
qed

subsection \<open>The grid features\<close>

lemma try_map_Inr:
  "try_map f xs = Inr ys \<Longrightarrow> length ys = length xs \<and> (\<forall>i<length xs. f (xs ! i) = Inr (ys ! i))"
proof (induction xs arbitrary: ys)
  case Nil
  then show ?case by simp
next
  case (Cons x xs)
  from Cons.prems obtain y ys' where
    y: "f x = Inr y" and ys': "try_map f xs = Inr ys'" and ys: "ys = y # ys'"
    by (auto split: sum.splits)
  from Cons.IH [OF ys'] y ys show ?case
    by (auto simp: nth_Cons split: nat.splits)
qed

lemma get_Inr:
  "get v k = Inr x \<Longrightarrow> x = (case map_of (own v) k of None \<Rightarrow> JUndefined | Some y \<Rightarrow> y)"
  by (cases v) auto

lemma decorate_Inr:
  assumes "decorate f = Inr f'"
  shows "\<exists>props fid.
           get f ''properties'' = Inr props \<and> get f ''id'' = Inr fid
         \<and> get f' ''id'' = Inr fid
         \<and> (\<exists>props'. get f' ''properties'' = Inr props' \<and> get props' ''h3_index'' = Inr fid
               \<and> (\<forall>k. k \<noteq> ''h3_index'' \<longrightarrow> map_of (own props') k = map_of (own props) k))
         \<and> (\<forall>k. k \<noteq> ''properties'' \<longrightarrow> map_of (own f') k = map_of (own f) k)"
proof -
  from assms obtain props fid where
    p: "get f ''properties'' = Inr props" and i: "get f ''id'' = Inr fid" and
    f': "f' = JObj (AList.update ''properties''
                     (JObj (AList.update ''h3_index'' fid (own props))) (own f))"
    by (auto simp: decorate_def split: sum.splits)
  have 1: "get f' ''id'' = Inr fid"
    using get_Inr [OF i] by (simp add: f' update_conv')
  have 2: "get f' ''properties'' = Inr (JObj (AList.update ''h3_index'' fid (own props)))"
    by (simp add: f' update_conv')
  have 3: "get (JObj (AList.update ''h3_index'' fid (own props))) ''h3_index'' = Inr fid"
    by (simp add: update_conv')
  have 4: "\<forall>k. k \<noteq> ''h3_index'' \<longrightarrow>
      map_of (own (JObj (AList.update ''h3_index'' fid (own props)))) k = map_of (own props) k"
    by (simp add: update_conv')
  have 5: "\<forall>k. k \<noteq> ''properties'' \<longrightarrow> map_of (own f') k = map_of (own f) k"
    by (simp add: f' update_conv')
  from p i 1 2 3 4 5 show ?thesis by blast
qed

lemma decorate_grid_Inr:
  assumes "decorate_grid grid = Inr grid'"
  shows "\<exists>fs fs'. get grid ''features'' = Inr (JArr fs) \<and> get grid' ''features'' = Inr (JArr fs')
           \<and> try_map decorate fs = Inr fs'"
proof -
  from assms obtain features where g: "get grid ''features'' = Inr features"
    by (auto simp: decorate_grid_def split: sum.splits)
  with assms obtain fs where fs: "features = JArr fs"
    by (cases features) (auto simp: decorate_grid_def)
  with assms g obtain fs' where t: "try_map decorate fs = Inr fs'"
    by (cases "try_map decorate fs") (auto simp: decorate_grid_def)
  with assms g fs have "grid' = JObj (AList.update ''features'' (JArr fs') (own grid))"
    by (auto simp: decorate_grid_def Let_def split: sum.splits)
  then have "get grid' ''features'' = Inr (JArr fs')"
    by (simp add: update_conv')
  with g fs t show ?thesis by blast
qed

lemma loadCoreGrid_Inr:
  assumes "fst (loadCoreGrid cfg e json meta w) = Inr grid'"
  shows "\<exists>url grid.
           fst (fetchWithDecompress cfg e json url \<lparr>cache = Some ''force-cache''\<rparr> (requests w))
             = Inr (Some grid)
         \<and> decorate_grid grid = Inr grid'"
proof -
  from assms have t: "fst (loadCoreGrid_try cfg e json meta (requests w)) = Inr grid'"
    by (auto simp: loadCoreGrid_def Let_def split: prod.splits sum.splits)
  then obtain files where "get meta ''available_files'' = Inr files"
    by (cases "get meta ''available_files''") (auto simp: loadCoreGrid_try_def)
  moreover from t this obtain gridFile where "get files ''core_grid'' = Inr gridFile"
    by (cases "get files ''core_grid''") (auto simp: loadCoreGrid_try_def)
  moreover from t calculation obtain s where "gridFile = JStr s"
    by (cases gridFile) (auto simp: loadCoreGrid_try_def)
  ultimately have u: "fst (case fetchWithDecompress cfg e json
          (dataBaseUrl cfg @ ''/'' @ strip_prefix ''current/'' (strip_prefix ''core/'' s))
          \<lparr>cache = Some ''force-cache''\<rparr> (requests w) of
        (Inl err, reqs') \<Rightarrow> (Inl err, reqs')
      | (Inr grid, reqs') \<Rightarrow> (decorate_grid (nullable grid), reqs')) = Inr grid'"
    using t by (simp add: loadCoreGrid_try_def Let_def)
  then obtain g where
    f: "fst (fetchWithDecompress cfg e json
          (dataBaseUrl cfg @ ''/'' @ strip_prefix ''current/'' (strip_prefix ''core/'' s))
          \<lparr>cache = Some ''force-cache''\<rparr> (requests w)) = Inr g"
    and d: "decorate_grid (nullable g) = Inr grid'"
    by (auto split: prod.splits sum.splits)
  from d obtain grid where "g = Some grid"
    by (cases g) (auto simp: nullable_def decorate_grid_def)
  with f d show ?thesis
    by (auto simp: nullable_def)
qed

lemma demo_grid_load:
  "fetchWithDecompress gz atlas_env atlas_json ''/data/h3_grid_res3.json''
     \<lparr>cache = Some ''force-cache''\<rparr> reqs
   = (Inr (Some demo_grid),
      reqs @ [(''/data/h3_grid_res3.json.gz'', \<lparr>cache = Some ''force-cache''\<rparr>),
              (''/data/h3_grid_res3.json'', \<lparr>cache = Some ''force-cache''\<rparr>)])"
  by (simp add: fetchWithDecompress_def gz_def atlas_env_def atlas_json_def response_json_def
      stream_json_def)

lemma demo_grid_decorate: "decorate_grid demo_grid = Inr decorated_grid"
  by (simp add: decorate_grid_def demo_grid_def decorate_def decorated_grid_def)

lemma demo_loadCoreGrid:
  "loadCoreGrid gz atlas_env atlas_json demo_metadata w =
     (Inr decorated_grid,
      w\<lparr>document := updateLoadingText ''Loading grid geometry...'' '''' (document w),
        requests := requests w
          @ [(''/data/h3_grid_res3.json.gz'', \<lparr>cache = Some ''force-cache''\<rparr>),
             (''/data/h3_grid_res3.json'', \<lparr>cache = Some ''force-cache''\<rparr>)]\<rparr>)"
proof -
  have p: "strip_prefix ''current/'' (strip_prefix ''core/'' ''core/h3_grid_res3.json'')
      = ''h3_grid_res3.json''"
    by (simp add: strip_prefix_def)
  have b: "dataBaseUrl gz = ''/data''"
    by (simp add: gz_def)
  show ?thesis
    by (simp add: loadCoreGrid_def loadCoreGrid_try_def demo_metadata_def Let_def p b
        demo_grid_load nullable_def demo_grid_decorate)
qed

text \<open>
  C8: when loadCoreGrid returns a grid, its features are those of the fetched grid, as
  many and in the same order; each has the id it had, its properties.h3_index is that
  id, every other property under properties is the one it had, and so is every other
  member of the feature.
\<close>

theorem loadCoreGrid_h3_index:
  assumes "fst (loadCoreGrid cfg e json meta w) = Inr grid'"
  shows "\<exists>url grid fs fs'.
           fst (fetchWithDecompress cfg e json url \<lparr>cache = Some ''force-cache''\<rparr> (requests w))
             = Inr (Some grid)
         \<and> get grid ''features'' = Inr (JArr fs) \<and> get grid' ''features'' = Inr (JArr fs')
         \<and> length fs' = length fs
         \<and> (\<forall>i<length fs. \<exists>props fid.
               get (fs ! i) ''properties'' = Inr props \<and> get (fs ! i) ''id'' = Inr fid
             \<and> get (fs' ! i) ''id'' = Inr fid
             \<and> (\<exists>props'. get (fs' ! i) ''properties'' = Inr props'
                   \<and> get props' ''h3_index'' = Inr fid
                   \<and> (\<forall>k. k \<noteq> ''h3_index'' \<longrightarrow>
                         map_of (own props') k = map_of (own props) k))
             \<and> (\<forall>k. k \<noteq> ''properties'' \<longrightarrow>
                   map_of (own (fs' ! i)) k = map_of (own (fs ! i)) k))"
proof -
  from loadCoreGrid_Inr [OF assms] obtain url grid where
    f: "fst (fetchWithDecompress cfg e json url \<lparr>cache = Some ''force-cache''\<rparr> (requests w))
          = Inr (Some grid)"
    and d: "decorate_grid grid = Inr grid'"
    by blast
  from decorate_grid_Inr [OF d] obtain fs fs' where
    g: "get grid ''features'' = Inr (JArr fs)" and g': "get grid' ''features'' = Inr (JArr fs')"
    and t: "try_map decorate fs = Inr fs'"
    by blast
  from try_map_Inr [OF t] have len: "length fs' = length fs"
    and each: "\<forall>i<length fs. decorate (fs ! i) = Inr (fs' ! i)"
    by simp_all
  have "\<forall>i<length fs. \<exists>props fid.
               get (fs ! i) ''properties'' = Inr props \<and> get (fs ! i) ''id'' = Inr fid
             \<and> get (fs' ! i) ''id'' = Inr fid
             \<and> (\<exists>props'. get (fs' ! i) ''properties'' = Inr props'
                   \<and> get props' ''h3_index'' = Inr fid
                   \<and> (\<forall>k. k \<noteq> ''h3_index'' \<longrightarrow>
                         map_of (own props') k = map_of (own props) k))
             \<and> (\<forall>k. k \<noteq> ''properties'' \<longrightarrow>
                   map_of (own (fs' ! i)) k = map_of (own (fs ! i)) k)"
    using each decorate_Inr by blast
  with f g g' len show ?thesis by blast
qed

theorem loadCoreGrid_h3_index_witness:
  "fst (loadCoreGrid gz atlas_env atlas_json demo_metadata demo_world) = Inr decorated_grid
   \<and> (\<exists>url grid fs fs'.
           fst (fetchWithDecompress gz atlas_env atlas_json url \<lparr>cache = Some ''force-cache''\<rparr>
                  (requests demo_world))
             = Inr (Some grid)
         \<and> get grid ''features'' = Inr (JArr fs)
         \<and> get decorated_grid ''features'' = Inr (JArr fs')
         \<and> length fs' = length fs
         \<and> (\<forall>i<length fs. \<exists>props fid.
               get (fs ! i) ''properties'' = Inr props \<and> get (fs ! i) ''id'' = Inr fid
             \<and> get (fs' ! i) ''id'' = Inr fid
             \<and> (\<exists>props'. get (fs' ! i) ''properties'' = Inr props'
                   \<and> get props' ''h3_index'' = Inr fid
                   \<and> (\<forall>k. k \<noteq> ''h3_index'' \<longrightarrow>
                         map_of (own props') k = map_of (own props) k))
             \<and> (\<forall>k. k \<noteq> ''properties'' \<longrightarrow>
                   map_of (own (fs' ! i)) k = map_of (own (fs ! i)) k)))"
proof -
  have h: "fst (loadCoreGrid gz atlas_env atlas_json demo_metadata demo_world) = Inr decorated_grid"
    by (simp add: demo_loadCoreGrid)
  from h loadCoreGrid_h3_index [OF h] show ?thesis
    by (rule conjI)
qed

subsection \<open>Loading in sequence\<close>

lemma attempts_nonempty: "l \<in> attempts cfg url opts \<Longrightarrow> l \<noteq> []"
  by (auto simp: attempts_def split: if_splits)

lemma fetch_requests:
  "\<exists>l\<in>attempts cfg url opts. snd (fetchWithDecompress cfg e json url opts reqs) = reqs @ l"
proof (cases "useGzip cfg")
  case True
  show ?thesis
  proof (cases "fetch e (url @ ''.gz'') opts")
    case None
    with True show ?thesis
      by (simp add: fetchWithDecompress_def attempts_def)
  next
    case (Some r)
    show ?thesis
    proof (cases "ok r")
      case True
      with \<open>useGzip cfg\<close> Some show ?thesis
        by (auto simp: fetchWithDecompress_def attempts_def Let_def
            split: option.splits prod.splits)
    next
      case False
      with \<open>useGzip cfg\<close> Some show ?thesis
        by (auto simp: fetchWithDecompress_def attempts_def Let_def split: option.splits)
    qed
  qed
next
  case False
  then show ?thesis
    by (auto simp: fetchWithDecompress_def attempts_def Let_def
        split: option.splits prod.splits)
qed

lemma loadMetadata_world:
  "\<exists>l\<in>attempts cfg (dataBaseUrl cfg @ ''/metadata.json'') \<lparr>cache = None\<rparr>.
     snd (loadMetadata cfg e json w) = w\<lparr>requests := requests w @ l\<rparr>"
proof -
  from fetch_requests [of cfg "dataBaseUrl cfg @ ''/metadata.json''" "\<lparr>cache = None\<rparr>" e json
      "requests w"]
  obtain l where l: "l \<in> attempts cfg (dataBaseUrl cfg @ ''/metadata.json'') \<lparr>cache = None\<rparr>"
    and s: "snd (fetchWithDecompress cfg e json (dataBaseUrl cfg @ ''/metadata.json'')
                  \<lparr>cache = None\<rparr> (requests w)) = requests w @ l"
    by blast
  from s have "snd (loadMetadata cfg e json w) = w\<lparr>requests := requests w @ l\<rparr>"
    by (auto simp: loadMetadata_def split: prod.splits sum.splits)
  with l show ?thesis by blast
qed

lemma loadCoreGrid_try_requests:
  "\<exists>l. snd (loadCoreGrid_try cfg e json meta reqs) = reqs @ l
     \<and> (l = [] \<and> (\<forall>g. fst (loadCoreGrid_try cfg e json meta reqs) \<noteq> Inr g)
        \<or> (\<exists>files s. get meta ''available_files'' = Inr files
              \<and> get files ''core_grid'' = Inr (JStr s)
              \<and> l \<in> attempts cfg
                    (dataBaseUrl cfg @ ''/'' @ strip_prefix ''current/'' (strip_prefix ''core/'' s))
                    \<lparr>cache = Some ''force-cache''\<rparr>))"
proof (cases "get meta ''available_files''")
  case (Inl err)
  then show ?thesis by (simp add: loadCoreGrid_try_def)
next
  case files: (Inr files)
  show ?thesis
  proof (cases "get files ''core_grid''")
    case (Inl err)
    with files show ?thesis by (simp add: loadCoreGrid_try_def)
  next
    case gridFile: (Inr gridFile)
    show ?thesis
    proof (cases "\<exists>s. gridFile = JStr s")
      case False
      with files gridFile show ?thesis
        by (cases gridFile) (simp_all add: loadCoreGrid_try_def)
    next
      case True
      then obtain s where s: "gridFile = JStr s" by blast
      from fetch_requests [of cfg
          "dataBaseUrl cfg @ ''/'' @ strip_prefix ''current/'' (strip_prefix ''core/'' s)"
          "\<lparr>cache = Some ''force-cache''\<rparr>" e json reqs]
      obtain l where
        l: "l \<in> attempts cfg
              (dataBaseUrl cfg @ ''/'' @ strip_prefix ''current/'' (strip_prefix ''core/'' s))
              \<lparr>cache = Some ''force-cache''\<rparr>"
        and r: "snd (fetchWithDecompress cfg e json
              (dataBaseUrl cfg @ ''/'' @ strip_prefix ''current/'' (strip_prefix ''core/'' s))
              \<lparr>cache = Some ''force-cache''\<rparr> reqs) = reqs @ l"
        by blast
      from r files gridFile s
      have "snd (loadCoreGrid_try cfg e json meta reqs) = reqs @ l"
        by (auto simp: loadCoreGrid_try_def Let_def split: prod.splits sum.splits)
      with l files gridFile s show ?thesis by blast
    qed
  qed
qed

lemma loadCoreGrid_world:
  "app (snd (loadCoreGrid cfg e json meta w)) = app w
   \<and> (\<exists>l. requests (snd (loadCoreGrid cfg e json meta w)) = requests w @ l
        \<and> (l = [] \<and> (\<forall>g. fst (loadCoreGrid cfg e json meta w) \<noteq> Inr g)
           \<or> (\<exists>files s. get meta ''available_files'' = Inr files
                 \<and> get files ''core_grid'' = Inr (JStr s)
                 \<and> l \<in> attempts cfg
                       (dataBaseUrl cfg @ ''/'' @ strip_prefix ''current/'' (strip_prefix ''core/'' s))
                       \<lparr>cache = Some ''force-cache''\<rparr>)))"
proof -
  obtain r reqs' where t: "loadCoreGrid_try cfg e json meta (requests w) = (r, reqs')"
    by (cases "loadCoreGrid_try cfg e json meta (requests w)")
  have a: "app (snd (loadCoreGrid cfg e json meta w)) = app w"
    and b: "requests (snd (loadCoreGrid cfg e json meta w)) = reqs'"
    and c: "\<And>g. fst (loadCoreGrid cfg e json meta w) = Inr g \<Longrightarrow> r = Inr g"
    using t by (cases r; simp add: loadCoreGrid_def Let_def)+
  from loadCoreGrid_try_requests [of cfg e json meta "requests w"] t a b c
  show ?thesis by fastforce
qed

lemma loadVibeScores_world:
  "\<exists>l\<in>attempts cfg (dataBaseUrl cfg @ ''/vibe_scores.json'') \<lparr>cache = Some ''no-cache''\<rparr>.
     requests (snd (loadVibeScores cfg e json w)) = requests w @ l
   \<and> metadata (app (snd (loadVibeScores cfg e json w))) = metadata (app w)
   \<and> coreGrid (app (snd (loadVibeScores cfg e json w))) = coreGrid (app w)"
proof -
  from fetch_requests [of cfg "dataBaseUrl cfg @ ''/vibe_scores.json''"
      "\<lparr>cache = Some ''no-cache''\<rparr>" e json "requests w"]
  obtain l where
    l: "l \<in> attempts cfg (dataBaseUrl cfg @ ''/vibe_scores.json'') \<lparr>cache = Some ''no-cache''\<rparr>"
    and s: "snd (fetchWithDecompress cfg e json (dataBaseUrl cfg @ ''/vibe_scores.json'')
                  \<lparr>cache = Some ''no-cache''\<rparr> (requests w)) = requests w @ l"
    by blast
  from s have "requests (snd (loadVibeScores cfg e json w)) = requests w @ l
     \<and> metadata (app (snd (loadVibeScores cfg e json w))) = metadata (app w)
     \<and> coreGrid (app (snd (loadVibeScores cfg e json w))) = coreGrid (app w)"
    by (auto simp: loadVibeScores_def Let_def split: prod.splits sum.splits option.splits)
  with l show ?thesis by blast
qed

lemma demo_metadata_load:
  "fetchWithDecompress gz atlas_env atlas_json ''/data/metadata.json'' \<lparr>cache = None\<rparr> reqs
   = (Inr (Some demo_metadata), reqs @ [(''/data/metadata.json.gz'', \<lparr>cache = None\<rparr>)])"
  by (simp add: fetchWithDecompress_def gz_def atlas_env_def atlas_json_def read_def
      isEncrypted_def byte_at_def combinedStream_def push_all stream_json_def)

lemma demo_loadMetadata:
  "loadMetadata gz atlas_env atlas_json w =
     (Inr demo_metadata,
      w\<lparr>requests := requests w @ [(''/data/metadata.json.gz'', \<lparr>cache = None\<rparr>)]\<rparr>)"
proof -
  have b: "dataBaseUrl gz = ''/data''"
    by (simp add: gz_def)
  show ?thesis
    by (simp add: loadMetadata_def b demo_metadata_load nullable_def)
qed

lemma demo_vibe_load:
  "fetchWithDecompress gz atlas_env atlas_json_vibe ''/data/vibe_scores.json''
     \<lparr>cache = Some ''no-cache''\<rparr> reqs
   = (Inr (Some demo_scores),
      reqs @ [(''/data/vibe_scores.json.gz'', \<lparr>cache = Some ''no-cache''\<rparr>)])"
  by (simp add: fetchWithDecompress_def gz_def atlas_env_def atlas_json_vibe_def read_def
      isEncrypted_def byte_at_def combinedStream_def push_all stream_json_def)

lemma demo_loadVibeScores:
  "loadVibeScores gz atlas_env atlas_json_vibe w =
     (Inr demo_scores,
      w\<lparr>document := updateLoadingText ''Loading vibe scores...'' '''' (document w),
        requests := requests w @ [(''/data/vibe_scores.json.gz'', \<lparr>cache = Some ''no-cache''\<rparr>)],
        app := (app w)\<lparr>pulse := Some demo_pulse, insights := Some []\<rparr>\<rparr>)"
proof -
  have b: "dataBaseUrl gz = ''/data''"
    by (simp add: gz_def)
  have c: "cells demo_scores = Some demo_cells" "data_pulse demo_scores = Some demo_pulse"
    "data_insights demo_scores = None"
    by (simp_all add: demo_scores_def)
  show ?thesis
    by (simp add: loadVibeScores_def Let_def b demo_vibe_load c)
qed

lemma demo_loadAllData:
  "fst (loadAllData gz atlas_env atlas_json atlas_json_vibe demo_world) = Inr True
   \<and> map fst (requests (snd (loadAllData gz atlas_env atlas_json atlas_json_vibe demo_world)))
     = [''/data/metadata.json.gz'', ''/data/h3_grid_res3.json.gz'', ''/data/h3_grid_res3.json'',
        ''/data/vibe_scores.json.gz'']"
  by (simp add: loadAllData_def Let_def demo_loadMetadata demo_loadCoreGrid demo_loadVibeScores
      demo_world_def)

lemma demo_loadMetadata_fails:
  "loadMetadata gz demo_env atlas_json w =
     (Inl (Error ''Could not load metadata file. Ensure data pipeline has run.''),
      w\<lparr>requests := requests w @ [(''/data/metadata.json.gz'', \<lparr>cache = None\<rparr>)]\<rparr>)"
  by (simp add: loadMetadata_def fetchWithDecompress_def gz_def demo_env_def)

text \<open>
  C6: loadAllData runs the three loaders one after the other. loadMetadata runs first; its
  result is stored in state.metadata and is the metadata that loadCoreGrid is called
  with; loadVibeScores runs on the world that loadCoreGrid left, once the grid is stored.
  The error of the first loader that fails is the error loadAllData throws, and no later
  loader sends a request; when all three succeed it returns true with the three documents
  stored. In every case state.isLoading is false at the end. The requests sent are those
  for the metadata, then those for the grid file that the stored metadata names, then
  those for the vibe scores.
\<close>

theorem loadAllData_sequential:
  assumes "loadAllData cfg e json json_vibe w = (r, w')"
  shows "isLoading (app w') = False
       \<and> (\<forall>b. r = Inr b \<longrightarrow> b)
       \<and> (\<exists>rm w1.
             loadMetadata cfg e json (w\<lparr>app := (app w)\<lparr>isLoading := True\<rparr>\<rparr>) = (rm, w1)
           \<and> (\<forall>err. rm = Inl err \<longrightarrow> r = Inl err \<and> requests w' = requests w1)
           \<and> (\<forall>meta. rm = Inr meta \<longrightarrow>
                 metadata (app w') = meta
               \<and> (\<exists>rg w2.
                     loadCoreGrid cfg e json meta (w1\<lparr>app := (app w1)\<lparr>metadata := meta\<rparr>\<rparr>)
                       = (rg, w2)
                   \<and> (\<forall>err. rg = Inl err \<longrightarrow> r = Inl err \<and> requests w' = requests w2)
                   \<and> (\<forall>grid. rg = Inr grid \<longrightarrow>
                         coreGrid (app w') = grid
                       \<and> (\<exists>rv w3.
                             loadVibeScores cfg e json_vibe
                               (w2\<lparr>app := (app w2)\<lparr>coreGrid := grid\<rparr>\<rparr>) = (rv, w3)
                           \<and> requests w' = requests w3
                           \<and> (\<forall>err. rv = Inl err \<longrightarrow> r = Inl err)
                           \<and> (\<forall>scores. rv = Inr scores \<longrightarrow>
                                 r = Inr True \<and> vibeScores (app w') = Some scores))))))
       \<and> (\<exists>l1 l2 l3.
             requests w' = requests w @ l1 @ l2 @ l3
           \<and> l1 \<in> attempts cfg (dataBaseUrl cfg @ ''/metadata.json'') \<lparr>cache = None\<rparr>
           \<and> (l2 = []
              \<or> (\<exists>files s. get (metadata (app w')) ''available_files'' = Inr files
                    \<and> get files ''core_grid'' = Inr (JStr s)
                    \<and> l2 \<in> attempts cfg
                          (dataBaseUrl cfg @ ''/''
                             @ strip_prefix ''current/'' (strip_prefix ''core/'' s))
                          \<lparr>cache = Some ''force-cache''\<rparr>))
           \<and> (l3 = []
              \<or> l2 \<noteq> []
                 \<and> l3 \<in> attempts cfg (dataBaseUrl cfg @ ''/vibe_scores.json'')
                         \<lparr>cache = Some ''no-cache''\<rparr>)
           \<and> (r = Inr True \<longrightarrow> l3 \<noteq> []))"
proof -
  define w0 where "w0 = w\<lparr>app := (app w)\<lparr>isLoading := True\<rparr>\<rparr>"
  let ?vibe = "\<lambda>grid w2. \<exists>rv w3.
      loadVibeScores cfg e json_vibe (w2\<lparr>app := (app w2)\<lparr>coreGrid := grid\<rparr>\<rparr>) = (rv, w3)
    \<and> requests w' = requests w3
    \<and> (\<forall>err. rv = Inl err \<longrightarrow> r = Inl err)
    \<and> (\<forall>scores. rv = Inr scores \<longrightarrow> r = Inr True \<and> vibeScores (app w') = Some scores)"
  let ?grid = "\<lambda>meta w1. \<exists>rg w2.
      loadCoreGrid cfg e json meta (w1\<lparr>app := (app w1)\<lparr>metadata := meta\<rparr>\<rparr>) = (rg, w2)
    \<and> (\<forall>err. rg = Inl err \<longrightarrow> r = Inl err \<and> requests w' = requests w2)
    \<and> (\<forall>grid. rg = Inr grid \<longrightarrow> coreGrid (app w') = grid \<and> ?vibe grid w2)"
  let ?steps = "\<exists>rm w1. loadMetadata cfg e json w0 = (rm, w1)
    \<and> (\<forall>err. rm = Inl err \<longrightarrow> r = Inl err \<and> requests w' = requests w1)
    \<and> (\<forall>meta. rm = Inr meta \<longrightarrow> metadata (app w') = meta \<and> ?grid meta w1)"
  let ?log = "\<exists>l1 l2 l3.
             requests w' = requests w @ l1 @ l2 @ l3
           \<and> l1 \<in> attempts cfg (dataBaseUrl cfg @ ''/metadata.json'') \<lparr>cache = None\<rparr>
           \<and> (l2 = []
              \<or> (\<exists>files s. get (metadata (app w')) ''available_files'' = Inr files
                    \<and> get files ''core_grid'' = Inr (JStr s)
                    \<and> l2 \<in> attempts cfg
                          (dataBaseUrl cfg @ ''/''
                             @ strip_prefix ''current/'' (strip_prefix ''core/'' s))
                          \<lparr>cache = Some ''force-cache''\<rparr>))
           \<and> (l3 = []
              \<or> l2 \<noteq> []
                 \<and> l3 \<in> attempts cfg (dataBaseUrl cfg @ ''/vibe_scores.json'')
                         \<lparr>cache = Some ''no-cache''\<rparr>)
           \<and> (r = Inr True \<longrightarrow> l3 \<noteq> [])"
  obtain rm w1 where m: "loadMetadata cfg e json w0 = (rm, w1)"
    by (cases "loadMetadata cfg e json w0")
  from loadMetadata_world [of cfg e json w0] m obtain l1 where
    l1: "l1 \<in> attempts cfg (dataBaseUrl cfg @ ''/metadata.json'') \<lparr>cache = None\<rparr>"
    and w1: "w1 = w0\<lparr>requests := requests w0 @ l1\<rparr>"
    by auto
  have r1: "requests w1 = requests w @ l1"
    by (simp add: w1 w0_def)
  have "isLoading (app w') = False \<and> (\<forall>b. r = Inr b \<longrightarrow> b) \<and> ?steps \<and> ?log"
  proof (cases rm)
    case (Inl err)
    with assms m have r: "r = Inl err" and w': "w' = w1\<lparr>app := (app w1)\<lparr>isLoading := False\<rparr>\<rparr>"
      by (simp_all add: loadAllData_def Let_def w0_def [symmetric])
    from r w' r1 have f: "isLoading (app w') = False" "\<forall>b. r = Inr b \<longrightarrow> b"
      "r \<noteq> Inr True" "requests w' = requests w @ l1 @ [] @ []" "requests w' = requests w1"
      by simp_all
    from m Inl r f(5) have ?steps
      by (intro exI [of _ rm] exI [of _ w1]) simp
    moreover from f l1 have ?log by blast
    ultimately show ?thesis using f by blast
  next
    case (Inr meta)
    define w1' where "w1' = w1\<lparr>app := (app w1)\<lparr>metadata := meta\<rparr>\<rparr>"
    obtain rg w2 where g: "loadCoreGrid cfg e json meta w1' = (rg, w2)"
      by (cases "loadCoreGrid cfg e json meta w1'")
    from loadCoreGrid_world [of cfg e json meta w1'] g obtain l2 where
      a2: "app w2 = app w1'" and r2: "requests w2 = requests w @ l1 @ l2"
      and c2: "l2 = [] \<and> (\<forall>x. rg \<noteq> Inr x)
           \<or> (\<exists>files s. get meta ''available_files'' = Inr files
                 \<and> get files ''core_grid'' = Inr (JStr s)
                 \<and> l2 \<in> attempts cfg
                       (dataBaseUrl cfg @ ''/'' @ strip_prefix ''current/'' (strip_prefix ''core/'' s))
                       \<lparr>cache = Some ''force-cache''\<rparr>)"
      by (auto simp: w1'_def r1)
    have m2: "metadata (app w2) = meta"
      by (simp add: a2 w1'_def)
    show ?thesis
    proof (cases rg)
      case (Inl err)
      with assms m g \<open>rm = Inr meta\<close>
      have r: "r = Inl err" and w': "w' = w2\<lparr>app := (app w2)\<lparr>isLoading := False\<rparr>\<rparr>"
        by (simp_all add: loadAllData_def Let_def w0_def [symmetric] w1'_def [symmetric])
      from r w' r2 m2 have f: "isLoading (app w') = False" "\<forall>b. r = Inr b \<longrightarrow> b"
        "r \<noteq> Inr True" "requests w' = requests w @ l1 @ l2 @ []"
        "metadata (app w') = meta" "requests w' = requests w2"
        by simp_all
      from g Inl r f(6) have "?grid meta w1"
        unfolding w1'_def by (intro exI [of _ rg] exI [of _ w2]) simp
      with m \<open>rm = Inr meta\<close> f(5) have ?steps
        by (intro exI [of _ rm] exI [of _ w1]) simp
      moreover from c2 f(5)
      have "l2 = []
          \<or> (\<exists>files s. get (metadata (app w')) ''available_files'' = Inr files
                \<and> get files ''core_grid'' = Inr (JStr s)
                \<and> l2 \<in> attempts cfg
                      (dataBaseUrl cfg @ ''/''
                         @ strip_prefix ''current/'' (strip_prefix ''core/'' s))
                      \<lparr>cache = Some ''force-cache''\<rparr>)"
        by blast
      with f l1 have ?log by blast
      ultimately show ?thesis using f by blast
    next
      case (Inr grid)
      define w2' where "w2' = w2\<lparr>app := (app w2)\<lparr>coreGrid := grid\<rparr>\<rparr>"
      obtain rv w3 where v: "loadVibeScores cfg e json_vibe w2' = (rv, w3)"
        by (cases "loadVibeScores cfg e json_vibe w2'")
      from loadVibeScores_world [of cfg e json_vibe w2'] v obtain l3 where
        l3: "l3 \<in> attempts cfg (dataBaseUrl cfg @ ''/vibe_scores.json'')
                  \<lparr>cache = Some ''no-cache''\<rparr>"
        and r3: "requests w3 = requests w @ l1 @ l2 @ l3"
        and m3: "metadata (app w3) = meta"
        and g3: "coreGrid (app w3) = grid"
        by (auto simp: w2'_def r2 m2)
      from c2 \<open>rg = Inr grid\<close> have l2: "l2 \<noteq> []"
        and c2': "\<exists>files s. get meta ''available_files'' = Inr files
                 \<and> get files ''core_grid'' = Inr (JStr s)
                 \<and> l2 \<in> attempts cfg
                       (dataBaseUrl cfg @ ''/'' @ strip_prefix ''current/'' (strip_prefix ''core/'' s))
                       \<lparr>cache = Some ''force-cache''\<rparr>"
        using attempts_nonempty by auto
      have w': "isLoading (app w') = False \<and> (\<forall>b. r = Inr b \<longrightarrow> b)
          \<and> requests w' = requests w3 \<and> metadata (app w') = metadata (app w3)
          \<and> coreGrid (app w') = coreGrid (app w3)
          \<and> (\<forall>err. rv = Inl err \<longrightarrow> r = Inl err)
          \<and> (\<forall>scores. rv = Inr scores \<longrightarrow> r = Inr True \<and> vibeScores (app w') = Some scores)"
      proof (cases rv)
        case (Inl err)
        with assms m g v \<open>rm = Inr meta\<close> \<open>rg = Inr grid\<close>
        have "r = Inl err" and "w' = w3\<lparr>app := (app w3)\<lparr>isLoading := False\<rparr>\<rparr>"
          by (simp_all add: loadAllData_def Let_def w0_def [symmetric] w1'_def [symmetric]
              w2'_def [symmetric])
        with Inl show ?thesis by simp
      next
        case (Inr scores)
        with assms m g v \<open>rm = Inr meta\<close> \<open>rg = Inr grid\<close>
        have "r = Inr True"
          and "w' = w3\<lparr>app := (app w3)\<lparr>vibeScores := Some scores, isLoading := False\<rparr>\<rparr>"
          by (simp_all add: loadAllData_def Let_def w0_def [symmetric] w1'_def [symmetric]
              w2'_def [symmetric])
        with Inr show ?thesis by simp
      qed
      from attempts_nonempty [OF l3] have n3: "l3 \<noteq> []" .
      from w' r3 m3 g3 have f: "isLoading (app w') = False" "\<forall>b. r = Inr b \<longrightarrow> b"
        "requests w' = requests w @ l1 @ l2 @ l3" "metadata (app w') = meta"
        "coreGrid (app w') = grid" "requests w' = requests w3"
        by auto
      from v w' f(6) have "?vibe grid w2"
        unfolding w2'_def by (intro exI [of _ rv] exI [of _ w3]) simp
      with g \<open>rg = Inr grid\<close> f(5) have "?grid meta w1"
        unfolding w1'_def by (intro exI [of _ rg] exI [of _ w2]) simp
      with m \<open>rm = Inr meta\<close> f(4) have ?steps
        by (intro exI [of _ rm] exI [of _ w1]) simp
      moreover from c2' f(4)
      have "\<exists>files s. get (metadata (app w')) ''available_files'' = Inr files
                \<and> get files ''core_grid'' = Inr (JStr s)
                \<and> l2 \<in> attempts cfg
                      (dataBaseUrl cfg @ ''/''
                         @ strip_prefix ''current/'' (strip_prefix ''core/'' s))
                      \<lparr>cache = Some ''force-cache''\<rparr>"
        by blast
      with f l1 l2 l3 n3 have ?log by blast
      ultimately show ?thesis using f by blast
    qed
  qed
  then show ?thesis
    unfolding w0_def by blast
qed

theorem loadAllData_sequential_witness:
  "fst (loadAllData gz atlas_env atlas_json atlas_json_vibe demo_world) = Inr True
   \<and> map fst (requests (snd (loadAllData gz atlas_env atlas_json atlas_json_vibe demo_world)))
     = [''/data/metadata.json.gz'', ''/data/h3_grid_res3.json.gz'', ''/data/h3_grid_res3.json'',
        ''/data/vibe_scores.json.gz'']
   \<and> isLoading (app (snd (loadAllData gz atlas_env atlas_json atlas_json_vibe demo_world))) = False
   \<and> metadata (app (snd (loadAllData gz atlas_env atlas_json atlas_json_vibe demo_world)))
     = demo_metadata
   \<and> coreGrid (app (snd (loadAllData gz atlas_env atlas_json atlas_json_vibe demo_world)))
     = decorated_grid
   \<and> vibeScores (app (snd (loadAllData gz atlas_env atlas_json atlas_json_vibe demo_world)))
     = Some demo_scores
   \<and> fst (loadAllData gz demo_env atlas_json atlas_json_vibe demo_world)
     = Inl (Error ''Could not load metadata file. Ensure data pipeline has run.'')
   \<and> isLoading (app (snd (loadAllData gz demo_env atlas_json atlas_json_vibe demo_world))) = False"
proof -
  have h: "loadAllData gz atlas_env atlas_json atlas_json_vibe demo_world
      = (fst (loadAllData gz atlas_env atlas_json atlas_json_vibe demo_world),
         snd (loadAllData gz atlas_env atlas_json atlas_json_vibe demo_world))"
    by simp
  from loadAllData_sequential [OF h]
  have a: "isLoading (app (snd (loadAllData gz atlas_env atlas_json atlas_json_vibe demo_world)))
      = False
    \<and> metadata (app (snd (loadAllData gz atlas_env atlas_json atlas_json_vibe demo_world)))
      = demo_metadata
    \<and> coreGrid (app (snd (loadAllData gz atlas_env atlas_json atlas_json_vibe demo_world)))
      = decorated_grid
    \<and> vibeScores (app (snd (loadAllData gz atlas_env atlas_json atlas_json_vibe demo_world)))
      = Some demo_scores"
    by (simp add: demo_loadMetadata demo_loadCoreGrid demo_loadVibeScores)
  have k: "loadAllData gz demo_env atlas_json atlas_json_vibe demo_world
      = (fst (loadAllData gz demo_env atlas_json atlas_json_vibe demo_world),
         snd (loadAllData gz demo_env atlas_json atlas_json_vibe demo_world))"
    by simp
  from loadAllData_sequential [OF k]
  have b: "fst (loadAllData gz demo_env atlas_json atlas_json_vibe demo_world)
      = Inl (Error ''Could not load metadata file. Ensure data pipeline has run.'')
    \<and> isLoading (app (snd (loadAllData gz demo_env atlas_json atlas_json_vibe demo_world)))
      = False"
    by (simp add: demo_loadMetadata_fails)
  from a b demo_loadAllData show ?thesis
    by blast
qed

end
